theory Spec2Isabelle
  imports Main
begin

section \<open>Severities and configuration (logger.go, lines 14-71)\<close>

text \<open>
  The Go type \<open>Level\<close> is an integer enumeration; the constructors are listed in the
  order of the \<open>iota\<close> block.
\<close>

datatype Level =
    DebugLevel | InfoLevel | WarnLevel | ErrorLevel | FatalLevel
  | NoticeLevel | CritLevel | AlertLevel | EmergLevel

text \<open>
  \<open>Config.Levels\<close> is a slice: \<open>None\<close> is the nil slice, \<open>Some []\<close> an empty slice
  that is not nil.
\<close>

record Config =
  Levels :: "Level list option"
  Colorize :: bool
  FilePath :: string
  IncludeLevelPrefix :: bool
  IncludeCallerTag :: bool

definition AllLevels :: "Level list" where
  "AllLevels = [DebugLevel, InfoLevel, NoticeLevel, WarnLevel, ErrorLevel,
                CritLevel, AlertLevel, EmergLevel, FatalLevel]"

section \<open>The process environment and the string helpers of the Go library\<close>

text \<open>
  The environment is a partial map from names to values; \<open>os.Getenv\<close> returns the
  empty string for a name that is not set.
\<close>

type_synonym environ = "string \<rightharpoonup> string"

definition Getenv :: "environ \<Rightarrow> string \<Rightarrow> string" where
  "Getenv env k = (case env k of None \<Rightarrow> [] | Some v \<Rightarrow> v)"

text \<open>
  Go strings are byte sequences, here \<open>char list\<close>. \<open>strings.TrimSpace\<close> and
  \<open>strings.ToUpper\<close> are modelled on ASCII text: the six ASCII white-space bytes are
  trimmed and the letters \<open>a\<close> to \<open>z\<close> are mapped to \<open>A\<close> to \<open>Z\<close>. On bytes from
  \<open>0x80\<close> upwards Go decodes UTF-8 and consults the Unicode tables; the theorems that
  depend on these two functions therefore assume \<open>ascii_text\<close> of their input.
\<close>

definition ascii_text :: "string \<Rightarrow> bool" where
  "ascii_text s = list_all (\<lambda>c. (of_char c :: nat) < 128) s"

definition isSpace :: "char \<Rightarrow> bool" where
  "isSpace c = (c = CHR 0x09 \<or> c = CHR 0x0A \<or> c = CHR 0x0B \<or> c = CHR 0x0C
                \<or> c = CHR 0x0D \<or> c = CHR '' '')"

definition TrimSpace :: "string \<Rightarrow> string" where
  "TrimSpace s = rev (dropWhile isSpace (rev (dropWhile isSpace s)))"

definition upper_char :: "char \<Rightarrow> char" where
  "upper_char c =
     (let n = (of_char c :: nat) in if 97 \<le> n \<and> n \<le> 122 then char_of (n - 32) else c)"

definition ToUpper :: "string \<Rightarrow> string" where
  "ToUpper s = map upper_char s"

text \<open>
  \<open>strings.Split(s, sep)\<close> for a one-byte separator: the pieces between the
  separators, so \<open>n\<close> separators give \<open>n + 1\<close> pieces and the empty string gives one
  empty piece.
\<close>

fun Split :: "string \<Rightarrow> char \<Rightarrow> string list" where
  "Split [] sep = [[]]"
| "Split (c # cs) sep =
     (if c = sep then [] # Split cs sep
      else (case Split cs sep of
              [] \<Rightarrow> [[c]]
            | p # ps \<Rightarrow> (c # p) # ps))"

text \<open>\<open>strings.Join(parts, sep)\<close>.\<close>

fun Join :: "string list \<Rightarrow> string \<Rightarrow> string" where
  "Join [] sep = []"
| "Join [p] sep = p"
| "Join (p # q # ps) sep = p @ sep @ Join (q # ps) sep"

section \<open>Level resolution (logger.go, lines 175-252)\<close>

text \<open>
  The enabled set is a Go \<open>map[Level]bool\<close>; a lookup of a missing key yields
  \<open>false\<close>.
\<close>

type_synonym level_map = "Level \<rightharpoonup> bool"

fun levelsFromSlice_loop :: "level_map \<Rightarrow> Level list \<Rightarrow> level_map" where
  "levelsFromSlice_loop m [] = m"
| "levelsFromSlice_loop m (level # levels) = levelsFromSlice_loop (m(level \<mapsto> True)) levels"

definition levelsFromSlice :: "Level list \<Rightarrow> level_map" where
  "levelsFromSlice levels = levelsFromSlice_loop Map.empty levels"

definition allLevelsEnabled :: level_map where
  "allLevelsEnabled =
     [DebugLevel \<mapsto> True, InfoLevel \<mapsto> True, NoticeLevel \<mapsto> True, WarnLevel \<mapsto> True,
      ErrorLevel \<mapsto> True, CritLevel \<mapsto> True, AlertLevel \<mapsto> True, EmergLevel \<mapsto> True,
      FatalLevel \<mapsto> True]"

text \<open>The body of the \<open>switch\<close> in \<open>parseLevels\<close>, for one piece \<open>p\<close> of the list.\<close>

definition parseLevels_case :: "level_map \<Rightarrow> string \<Rightarrow> level_map" where
  "parseLevels_case m p =
     (let u = ToUpper (TrimSpace p) in
      if u = ''DEBUG'' then m(DebugLevel \<mapsto> True)
      else if u = ''INFO'' then m(InfoLevel \<mapsto> True)
      else if u = ''NOTICE'' then m(NoticeLevel \<mapsto> True)
      else if u = ''WARNING'' then m(WarnLevel \<mapsto> True)
      else if u = ''ERROR'' then m(ErrorLevel \<mapsto> True)
      else if u = ''CRIT'' \<or> u = ''CRITICAL'' then m(CritLevel \<mapsto> True)
      else if u = ''ALERT'' then m(AlertLevel \<mapsto> True)
      else if u = ''EMERG'' \<or> u = ''EMERGENCY'' then m(EmergLevel \<mapsto> True)
      else if u = ''FATAL'' then m(FatalLevel \<mapsto> True)
      else m)"

fun parseLevels_loop :: "level_map \<Rightarrow> string list \<Rightarrow> level_map" where
  "parseLevels_loop m [] = m"
| "parseLevels_loop m (p # ps) = parseLevels_loop (parseLevels_case m p) ps"

definition parseLevels :: "string \<Rightarrow> level_map" where
  "parseLevels s0 =
     (let s = TrimSpace s0 in
      if s = [] then
        [DebugLevel \<mapsto> True, InfoLevel \<mapsto> True, NoticeLevel \<mapsto> True, WarnLevel \<mapsto> True,
         ErrorLevel \<mapsto> True, CritLevel \<mapsto> True, AlertLevel \<mapsto> True, EmergLevel \<mapsto> True,
         FatalLevel \<mapsto> True]
      else parseLevels_loop Map.empty (Split s CHR '',''))"

definition resolveLevels :: "environ \<Rightarrow> Level list option \<Rightarrow> level_map" where
  "resolveLevels env levels =
     (case levels of
        Some ls \<Rightarrow> levelsFromSlice ls
      | None \<Rightarrow>
          (let e = Getenv env ''LOGGER_LEVELS'' in
           if e \<noteq> [] then parseLevels e else allLevelsEnabled))"

text \<open>\<open>isLevelEnabled\<close> reads the package variable \<open>enabledLevels\<close>, passed here.\<close>

definition lookup_level :: "level_map \<Rightarrow> Level \<Rightarrow> bool" where
  "lookup_level m level = (case m level of None \<Rightarrow> False | Some b \<Rightarrow> b)"

section \<open>Decimal rendering and the wall clock\<close>

text \<open>
  \<open>show_nat\<close> is the decimal rendering that \<open>%d\<close> gives a non-negative integer,
  \<open>show_int\<close> the one it gives a Go \<open>int\<close>.
\<close>

definition digit_char :: "nat \<Rightarrow> char" where
  "digit_char d = ''0123456789'' ! (d mod 10)"

fun show_nat :: "nat \<Rightarrow> string" where
  "show_nat n = (if n < 10 then [digit_char n] else show_nat (n div 10) @ [digit_char n])"

definition show_int :: "int \<Rightarrow> string" where
  "show_int i = (if i < 0 then CHR ''-'' # show_nat (nat (- i)) else show_nat (nat i))"

text \<open>
  The broken-down local time that \<open>time.Now()\<close> returns. Both the \<open>log\<close> package
  (flags \<open>Ldate | Ltime\<close>) and the layout \<open>2006/01/02 15:04:05\<close> of
  \<open>timestampWriter\<close> print each field in decimal, padded with zeros to a width of four
  (year) or two.
\<close>

record civil_time =
  year :: nat
  month :: nat
  day :: nat
  hour :: nat
  minute :: nat
  second :: nat

definition pad_int :: "nat \<Rightarrow> nat \<Rightarrow> string" where
  "pad_int n wid = replicate (wid - length (show_nat n)) CHR ''0'' @ show_nat n"

definition format_stamp :: "civil_time \<Rightarrow> string" where
  "format_stamp t =
     pad_int (year t) 4 @ ''/'' @ pad_int (month t) 2 @ ''/'' @ pad_int (day t) 2 @ '' '' @
     pad_int (hour t) 2 @ '':'' @ pad_int (minute t) 2 @ '':'' @ pad_int (second t) 2 @ '' ''"

definition valid_clock :: "civil_time \<Rightarrow> bool" where
  "valid_clock t =
     (year t < 10000 \<and> 1 \<le> month t \<and> month t \<le> 12 \<and> 1 \<le> day t \<and> day t \<le> 31 \<and>
      hour t < 24 \<and> minute t < 60 \<and> second t < 60)"

text \<open>
  The shape \<open>YYYY/MM/DD HH:MM:SS \<close> as a template: \<open>9\<close> in the template stands for
  any decimal digit, every other byte for itself; the text may continue after the
  template.
\<close>

definition is_digit :: "char \<Rightarrow> bool" where
  "is_digit c = (let n = (of_char c :: nat) in 48 \<le> n \<and> n \<le> 57)"

fun match_template :: "string \<Rightarrow> string \<Rightarrow> bool" where
  "match_template [] s = True"
| "match_template (t # ts) [] = False"
| "match_template (t # ts) (c # cs) =
     ((if t = CHR ''9'' then is_digit c else c = t) \<and> match_template ts cs)"

definition starts_with_stamp :: "string \<Rightarrow> bool" where
  "starts_with_stamp s = match_template ''9999/99/99 99:99:99 '' s"

section \<open>The outside world: console streams, files, clock\<close>

text \<open>
  The two console streams are byte buffers that accept every write (as the
  \<open>bytes.Buffer\<close> the tests install in \<open>outStdout\<close> and \<open>outStderr\<close>, or a terminal).
  A file handle is a number, never reused; \<open>fds\<close> maps the handles that are open to
  their path, \<open>disk\<close> maps a path to the file's contents. \<open>open_fails\<close> gives the
  paths that cannot be opened and \<open>close_fails\<close> the handles whose close reports an
  error, each with the error of the operating system.
\<close>

datatype go_error = ErrShortWrite | ErrClosed | OSError string

record world =
  stdout :: string
  stderr :: string
  disk :: "string \<rightharpoonup> string"
  fds :: "nat \<rightharpoonup> string"
  next_fd :: nat
  open_fails :: "string \<rightharpoonup> string"
  close_fails :: "nat \<rightharpoonup> string"
  now :: civil_time

text \<open>
  \<open>os.OpenFile(path, O_CREATE | O_WRONLY | O_APPEND, 0644)\<close>: the file is created
  when it does not exist and is never truncated.
\<close>

definition OpenFile :: "string \<Rightarrow> world \<Rightarrow> world \<times> (go_error + nat)" where
  "OpenFile path w =
     (case open_fails w path of
        Some e \<Rightarrow> (w, Inl (OSError e))
      | None \<Rightarrow>
          (w\<lparr>disk := (disk w)(path \<mapsto> (case disk w path of None \<Rightarrow> [] | Some c \<Rightarrow> c)),
             fds := (fds w)(next_fd w \<mapsto> path),
             next_fd := Suc (next_fd w)\<rparr>,
           Inr (next_fd w)))"

text \<open>\<open>(*os.File).Write\<close> on a file opened for appending.\<close>

definition file_write :: "nat \<Rightarrow> string \<Rightarrow> world \<Rightarrow> world \<times> nat \<times> go_error option" where
  "file_write h p w =
     (case fds w h of
        None \<Rightarrow> (w, 0, Some ErrClosed)
      | Some path \<Rightarrow>
          (w\<lparr>disk := (disk w)(path \<mapsto> (case disk w path of None \<Rightarrow> [] | Some c \<Rightarrow> c) @ p)\<rparr>,
           length p, None))"

text \<open>\<open>(*os.File).Close\<close>: the handle is released whether or not an error is reported.\<close>

definition file_close :: "nat \<Rightarrow> world \<Rightarrow> world \<times> go_error option" where
  "file_close h w =
     (case fds w h of
        None \<Rightarrow> (w, Some ErrClosed)
      | Some path \<Rightarrow>
          (w\<lparr>fds := (fds w)(h := None)\<rparr>,
           (case close_fails w h of None \<Rightarrow> None | Some e \<Rightarrow> Some (OSError e))))"

section \<open>The writers of logger.go (lines 337-407) and \<open>io.MultiWriter\<close>\<close>

text \<open>
  The loop of \<open>syslogPrefixWriter.Write\<close> over the bytes of \<open>data\<close>: every byte is
  copied, and the prefix follows a newline that is not the last byte (\<open>i \<noteq> len(data)-1\<close>
  is \<open>bs \<noteq> []\<close> here).
\<close>

fun syslog_loop :: "string \<Rightarrow> string \<Rightarrow> string" where
  "syslog_loop prefix [] = []"
| "syslog_loop prefix (b # bs) =
     (if b = CHR 0x0A \<and> bs \<noteq> [] then b # prefix @ syslog_loop prefix bs
      else b # syslog_loop prefix bs)"

text \<open>
  The loop of \<open>plainFileWriter.Write\<close>; the first argument is the variable \<open>inEscape\<close>,
  and \<open>i+1 < len(s) && s[i+1] == '['\<close> reads the head of the rest.
\<close>

fun strip_loop :: "bool \<Rightarrow> string \<Rightarrow> string" where
  "strip_loop inEscape [] = []"
| "strip_loop inEscape (c # cs) =
     (if c = CHR 0x1B \<and> (case cs of [] \<Rightarrow> False | d # _ \<Rightarrow> d = CHR ''['') then strip_loop True cs
      else if inEscape then (if c = CHR ''m'' then strip_loop False cs else strip_loop True cs)
      else c # strip_loop False cs)"

datatype writer =
    Discard
  | Stdout
  | Stderr
  | FileWriter nat
  | syslogPrefixWriter writer string
  | plainFileWriter writer string
  | timestampWriter writer
  | MultiWriter "writer list"

text \<open>
  \<open>Write\<close> returns the new world, the count \<open>n\<close> and the error. \<open>io.MultiWriter\<close>
  writes to its writers in order; it stops at the first error, and at the first
  writer whose count is not the length of the data (\<open>io.ErrShortWrite\<close>).
\<close>

fun Write :: "writer \<Rightarrow> string \<Rightarrow> world \<Rightarrow> world \<times> nat \<times> go_error option"
  and Write_multi :: "writer list \<Rightarrow> string \<Rightarrow> world \<Rightarrow> world \<times> nat \<times> go_error option" where
  "Write Discard p w = (w, length p, None)"
| "Write Stdout p w = (w\<lparr>stdout := stdout w @ p\<rparr>, length p, None)"
| "Write Stderr p w = (w\<lparr>stderr := stderr w @ p\<rparr>, length p, None)"
| "Write (FileWriter h) p w = file_write h p w"
| "Write (syslogPrefixWriter u prefix) data w =
     (if prefix = [] then Write u data w
      else if data = [] then (w, 0, None)
      else (case Write u (prefix @ syslog_loop prefix data) w of
              (w', n, err) \<Rightarrow>
                (if err \<noteq> None then (w', 0, err) else (w', length data, None))))"
| "Write (plainFileWriter u level) data w = Write u (strip_loop False data) w"
| "Write (timestampWriter u) data w = Write u (format_stamp (now w) @ data) w"
| "Write (MultiWriter us) p w = Write_multi us p w"
| "Write_multi [] p w = (w, length p, None)"
| "Write_multi (u # us) p w =
     (case Write u p w of
        (w', n, err) \<Rightarrow>
          (if err \<noteq> None then (w', n, err)
           else if n \<noteq> length p then (w', n, Some ErrShortWrite)
           else Write_multi us p w'))"

section \<open>The \<open>log.Logger\<close> of the Go library\<close>

text \<open>
  A logger is its output, its prefix and its flags; the source passes the flags \<open>0\<close>
  and \<open>log.LstdFlags\<close> (date and time) only. \<open>Println\<close> builds the line (the prefix,
  the date and time when the flags ask for them, the message, a newline) and hands it
  to the output in one \<open>Write\<close>, whose result it drops.
\<close>

datatype log_flags = NoFlags | LstdFlags

record Logger =
  lg_out :: writer
  lg_prefix :: string
  lg_flags :: log_flags

definition log_New :: "writer \<Rightarrow> string \<Rightarrow> log_flags \<Rightarrow> Logger" where
  "log_New out pre fl = \<lparr>lg_out = out, lg_prefix = pre, lg_flags = fl\<rparr>"

definition formatHeader :: "Logger \<Rightarrow> civil_time \<Rightarrow> string" where
  "formatHeader l t =
     lg_prefix l @ (case lg_flags l of NoFlags \<Rightarrow> [] | LstdFlags \<Rightarrow> format_stamp t)"

definition Println :: "Logger \<Rightarrow> string \<Rightarrow> world \<Rightarrow> world" where
  "Println l msg w = fst (Write (lg_out l) (formatHeader l (now w) @ msg @ [CHR 0x0A]) w)"

section \<open>Logger construction (logger.go, lines 254-335)\<close>

definition colors :: "string \<Rightarrow> string" where
  "colors level =
     (if level = ''DEBUG'' then [CHR 0x1B] @ ''[36m''
      else if level = ''INFO'' then [CHR 0x1B] @ ''[32m''
      else if level = ''NOTICE'' then [CHR 0x1B] @ ''[34m''
      else if level = ''WARNING'' then [CHR 0x1B] @ ''[33m''
      else if level = ''ERROR'' then [CHR 0x1B] @ ''[31m''
      else if level = ''CRIT'' then [CHR 0x1B] @ ''[91m''
      else if level = ''ALERT'' then [CHR 0x1B] @ ''[95m''
      else if level = ''EMERG'' then [CHR 0x1B] @ ''[97m''
      else if level = ''FATAL'' then [CHR 0x1B] @ ''[35m''
      else [])"

definition reset :: string where
  "reset = [CHR 0x1B] @ ''[0m''"

definition prefixForLog :: "string \<Rightarrow> string" where
  "prefixForLog pre = (if pre = [] then [] else pre @ '' '')"

definition newColorLogger :: "writer \<Rightarrow> string \<Rightarrow> bool \<Rightarrow> writer option \<Rightarrow> Logger" where
  "newColorLogger out level showLevel fileWriter =
     (let pre = (if showLevel then colors level @ ''['' @ level @ '']'' @ reset else [])
      in case fileWriter of
           Some fw \<Rightarrow>
             log_New (MultiWriter [out, plainFileWriter fw level]) (prefixForLog pre) LstdFlags
         | None \<Rightarrow> log_New out (prefixForLog pre) LstdFlags)"

definition shouldUseSyslogPrefix :: "environ \<Rightarrow> bool" where
  "shouldUseSyslogPrefix env = (Getenv env ''JOURNAL_STREAM'' \<noteq> [])"

definition syslogPrefixForLevel :: "string \<Rightarrow> string" where
  "syslogPrefixForLevel level =
     (if level = ''EMERG'' then ''<0>''
      else if level = ''ALERT'' then ''<1>''
      else if level = ''CRIT'' then ''<2>''
      else if level = ''DEBUG'' then ''<7>''
      else if level = ''INFO'' then ''<6>''
      else if level = ''NOTICE'' then ''<5>''
      else if level = ''WARNING'' then ''<4>''
      else if level = ''ERROR'' then ''<3>''
      else if level = ''FATAL'' then ''<2>''
      else [])"

definition newPlainLogger :: "environ \<Rightarrow> writer \<Rightarrow> string \<Rightarrow> bool \<Rightarrow> writer option \<Rightarrow> Logger" where
  "newPlainLogger env out level showLevel fileWriter =
     (let pre = (if showLevel then ''['' @ level @ '']'' else []);
          outWriter =
            (if shouldUseSyslogPrefix env \<and> syslogPrefixForLevel level \<noteq> []
             then syslogPrefixWriter out (syslogPrefixForLevel level)
             else out)
      in case fileWriter of
           Some fw \<Rightarrow> log_New (MultiWriter [outWriter, timestampWriter fw]) (prefixForLog pre) NoFlags
         | None \<Rightarrow> log_New outWriter (prefixForLog pre) NoFlags)"

section \<open>The package state, \<open>Init\<close> and \<open>Close\<close> (logger.go, lines 73-173)\<close>

text \<open>
  The package variables: the nine loggers \<open>Debug\<close>, \<open>Info\<close>, \<open>Notice\<close>, \<open>Warning\<close>,
  \<open>Error\<close>, \<open>Crit\<close>, \<open>Alert\<close>, \<open>Emerg\<close> and \<open>Fatal\<close> (indexed here by the
  level whose entry points use them), \<open>enabledLevels\<close>, \<open>logFile\<close> and
  \<open>includeCallerTag\<close>. The mutex is left out: the model runs one call at a time.
\<close>

record logger_state =
  Loggers :: "Level \<Rightarrow> Logger"
  enabledLevels :: level_map
  logFile :: "nat option"
  includeCallerTag :: bool

definition initial_state :: logger_state where
  "initial_state =
     \<lparr>Loggers = (\<lambda>l. log_New Discard [] NoFlags),
      enabledLevels = allLevelsEnabled,
      logFile = None,
      includeCallerTag = False\<rparr>"

definition isLevelEnabled :: "logger_state \<Rightarrow> Level \<Rightarrow> bool" where
  "isLevelEnabled st level = lookup_level (enabledLevels st) level"

text \<open>
  The two columns of the eighteen constructor calls in \<open>Init\<close>: the console stream and
  the level string each logger is built with.
\<close>

fun level_out :: "Level \<Rightarrow> writer" where
  "level_out DebugLevel = Stdout"
| "level_out InfoLevel = Stdout"
| "level_out NoticeLevel = Stdout"
| "level_out WarnLevel = Stderr"
| "level_out ErrorLevel = Stderr"
| "level_out CritLevel = Stderr"
| "level_out AlertLevel = Stderr"
| "level_out EmergLevel = Stderr"
| "level_out FatalLevel = Stderr"

fun level_string :: "Level \<Rightarrow> string" where
  "level_string DebugLevel = ''DEBUG''"
| "level_string InfoLevel = ''INFO''"
| "level_string NoticeLevel = ''NOTICE''"
| "level_string WarnLevel = ''WARNING''"
| "level_string ErrorLevel = ''ERROR''"
| "level_string CritLevel = ''CRIT''"
| "level_string AlertLevel = ''ALERT''"
| "level_string EmergLevel = ''EMERG''"
| "level_string FatalLevel = ''FATAL''"

definition error_text :: "go_error \<Rightarrow> string" where
  "error_text e =
     (case e of ErrShortWrite \<Rightarrow> ''short write'' | ErrClosed \<Rightarrow> ''file already closed''
      | OSError t \<Rightarrow> t)"

text \<open>
  The first half of \<open>Init\<close>: the file is opened when the path is not empty; a failure
  is reported on \<open>outStderr\<close> and leaves \<open>fileWriter\<close> nil.
\<close>

definition open_log_file :: "string \<Rightarrow> world \<Rightarrow> world \<times> nat option" where
  "open_log_file path w =
     (if path \<noteq> [] then
        (case OpenFile path w of
           (w', Inl err) \<Rightarrow>
             (w'\<lparr>stderr := stderr w' @ ''failed to open log file '' @ path @ '': '' @
                              error_text err @ [CHR 0x0A]\<rparr>, None)
         | (w', Inr f) \<Rightarrow> (w', Some f))
      else (w, None))"

definition Init :: "environ \<Rightarrow> Config \<Rightarrow> logger_state \<Rightarrow> world \<Rightarrow> logger_state \<times> world" where
  "Init env config st w =
     (let showLevel = IncludeLevelPrefix config;
          (w', opened) = open_log_file (FilePath config) w;
          fileWriter = map_option FileWriter opened
      in (\<lparr>Loggers =
             (if Colorize config
              then (\<lambda>l. newColorLogger (level_out l) (level_string l) showLevel fileWriter)
              else (\<lambda>l. newPlainLogger env (level_out l) (level_string l) showLevel fileWriter)),
           enabledLevels = resolveLevels env (Levels config),
           logFile = (case opened of Some f \<Rightarrow> Some f | None \<Rightarrow> logFile st),
           includeCallerTag = IncludeCallerTag config\<rparr>,
          w'))"

definition InitWithFile :: "environ \<Rightarrow> Config \<Rightarrow> string \<Rightarrow> logger_state \<Rightarrow> world \<Rightarrow> logger_state \<times> world" where
  "InitWithFile env config filePath st w = Init env (config\<lparr>FilePath := filePath\<rparr>) st w"

definition Close :: "logger_state \<Rightarrow> world \<Rightarrow> logger_state \<times> world \<times> go_error option" where
  "Close st w =
     (case logFile st of
        Some f \<Rightarrow> (case file_close f w of (w', err) \<Rightarrow> (st\<lparr>logFile := None\<rparr>, w', err))
      | None \<Rightarrow> (st, w, None))"

section \<open>Caller tag and field encoding (logger.go, lines 409-454)\<close>

text \<open>
  \<open>strings.LastIndex\<close> for a one-byte needle: the index of its last occurrence, or
  \<open>-1\<close>.
\<close>

definition LastIndex :: "string \<Rightarrow> char \<Rightarrow> int" where
  "LastIndex s c =
     (if c \<in> set s then int (length s) - 1 - int (length (takeWhile (\<lambda>x. x \<noteq> c) (rev s)))
      else - 1)"

text \<open>
  The frame that \<open>runtime.Caller\<close> and \<open>runtime.FuncForPC\<close> resolve for the call
  site is an argument: \<open>None\<close> when either of them fails, otherwise the full function
  name and the line.
\<close>

definition getCallerInfo :: "(string \<times> nat) option \<Rightarrow> string" where
  "getCallerInfo frame =
     (case frame of
        None \<Rightarrow> ''unknown''
      | Some (full, line) \<Rightarrow>
          (let lastSlash = LastIndex full CHR ''/'';
               short = (if lastSlash \<ge> 0 \<and> lastSlash + 1 < int (length full)
                        then drop (nat (lastSlash + 1)) full else full)
           in short @ '':'' @ show_nat line))"

definition formatWithCaller :: "logger_state \<Rightarrow> (string \<times> nat) option \<Rightarrow> string \<Rightarrow> string" where
  "formatWithCaller st frame msg =
     (if \<not> includeCallerTag st then msg
      else ''['' @ getCallerInfo frame @ ''] '' @ msg)"

text \<open>
  A value of the Go type \<open>any\<close>: a string, an integer, a boolean, or a value of any
  other dynamic type, given by the text that \<open>%v\<close> prints for it.
\<close>

datatype any = AStr string | AInt int | ABool bool | AOther string

fun fmt_v :: "any \<Rightarrow> string" where
  "fmt_v (AStr s) = s"
| "fmt_v (AInt i) = show_int i"
| "fmt_v (ABool b) = (if b then ''true'' else ''false'')"
| "fmt_v (AOther s) = s"

text \<open>
  The loop \<open>for i := 0; i+1 < len(keyvals); i += 2\<close> of \<open>encodeFields\<close>, on the
  rest of the slice from index \<open>i\<close>; the result is the slice \<open>parts\<close>.
\<close>

fun encodeFields_loop :: "any list \<Rightarrow> string list" where
  "encodeFields_loop (k # v # rest) =
     (case k of
        AStr key \<Rightarrow> (key @ ''='' @ fmt_v v) # encodeFields_loop rest
      | _ \<Rightarrow> encodeFields_loop rest)"
| "encodeFields_loop [k] = []"
| "encodeFields_loop [] = []"

definition encodeFields :: "any list \<Rightarrow> string" where
  "encodeFields keyvals =
     (if keyvals = [] then []
      else (let parts = encodeFields_loop keyvals in
            if parts = [] then [] else '' '' @ Join parts '' ''))"

section \<open>The entry points (logger.go, lines 456-924)\<close>

text \<open>
  How a call ends: it returns, or the process exits with a status (\<open>os.Exit\<close>).
\<close>

datatype outcome = Returned | Exited int

text \<open>
  The twenty-seven entry points share one body per severity. \<open>dispatch level\<close> is
  that body after the message has been rendered: \<open>msg\<close> is the result of
  \<open>fmt.Sprintf(format, v...)\<close> for \<open>Debugf\<close> to \<open>Fatalf\<close> and of \<open>fmt.Sprint(v...)\<close>
  for \<open>Debugln\<close> to \<open>Fatalln\<close>. The fatal entry points call \<open>os.Exit(1)\<close> where the
  others return.
\<close>

definition dispatch ::
  "Level \<Rightarrow> logger_state \<Rightarrow> (string \<times> nat) option \<Rightarrow> string \<Rightarrow> world \<Rightarrow> world \<times> outcome" where
  "dispatch level st frame msg w =
     (if level = FatalLevel then
        (if \<not> isLevelEnabled st FatalLevel then (w, Exited 1)
         else (Println (Loggers st FatalLevel) (formatWithCaller st frame msg) w, Exited 1))
      else
        (if \<not> isLevelEnabled st level then (w, Returned)
         else (Println (Loggers st level) (formatWithCaller st frame msg) w, Returned)))"

text \<open>
  \<open>DebugKV\<close> to \<open>FatalKV\<close>: the line is \<open>fmt.Sprintf("%s%s", msg, fields)\<close>.
\<close>

definition dispatchKV ::
  "Level \<Rightarrow> logger_state \<Rightarrow> (string \<times> nat) option \<Rightarrow> string \<Rightarrow> any list \<Rightarrow> world \<Rightarrow> world \<times> outcome" where
  "dispatchKV level st frame msg keyvals w =
     dispatch level st frame (msg @ encodeFields keyvals) w"

definition statusCodeToLevel :: "int \<Rightarrow> Level" where
  "statusCodeToLevel code =
     (if code \<ge> 500 then ErrorLevel
      else if code \<ge> 400 then WarnLevel
      else if code \<ge> 300 then InfoLevel
      else InfoLevel)"

definition Api :: "logger_state \<Rightarrow> (string \<times> nat) option \<Rightarrow> int \<Rightarrow> string \<Rightarrow> world \<Rightarrow> world" where
  "Api st frame statusCode msg w =
     (let level = statusCodeToLevel statusCode in
      if \<not> isLevelEnabled st level then w
      else (let logMsg = formatWithCaller st frame (''['' @ show_int statusCode @ ''] '' @ msg)
            in case level of
                 InfoLevel \<Rightarrow> Println (Loggers st InfoLevel) logMsg w
               | WarnLevel \<Rightarrow> Println (Loggers st WarnLevel) logMsg w
               | ErrorLevel \<Rightarrow> Println (Loggers st ErrorLevel) logMsg w
               | _ \<Rightarrow> w))"

section \<open>Observations\<close>

text \<open>
  What a caller can observe of a world: the text on the console stream a severity is
  bound to, and the text of a file. \<open>console_append\<close> and \<open>file_append\<close> are the
  two ways a log call changes a world.
\<close>

definition console :: "Level \<Rightarrow> world \<Rightarrow> string" where
  "console l w = (if level_out l = Stdout then stdout w else stderr w)"

definition file_text :: "string \<Rightarrow> world \<Rightarrow> string" where
  "file_text path w = (case disk w path of None \<Rightarrow> [] | Some c \<Rightarrow> c)"

definition console_append :: "Level \<Rightarrow> string \<Rightarrow> world \<Rightarrow> world" where
  "console_append l p w =
     (if level_out l = Stdout then w\<lparr>stdout := stdout w @ p\<rparr> else w\<lparr>stderr := stderr w @ p\<rparr>)"

definition file_append :: "string \<Rightarrow> string \<Rightarrow> world \<Rightarrow> world" where
  "file_append path p w = w\<lparr>disk := (disk w)(path \<mapsto> file_text path w @ p)\<rparr>"

text \<open>
  The console copy of a line under the plain loggers, and the prefix each kind of
  logger is built with.
\<close>

definition syslog_copy :: "environ \<Rightarrow> Level \<Rightarrow> string \<Rightarrow> string" where
  "syslog_copy env l line =
     (if shouldUseSyslogPrefix env
      then syslogPrefixForLevel (level_string l) @
           syslog_loop (syslogPrefixForLevel (level_string l)) line
      else line)"

definition plain_prefix :: "bool \<Rightarrow> Level \<Rightarrow> string" where
  "plain_prefix showLevel l = (if showLevel then ''['' @ level_string l @ ''] '' else [])"

definition color_prefix :: "bool \<Rightarrow> Level \<Rightarrow> string" where
  "color_prefix showLevel l =
     (if showLevel then colors (level_string l) @ ''['' @ level_string l @ '']'' @ reset @ '' ''
      else [])"

text \<open>
  The text a log call of severity \<open>l\<close> with body \<open>body\<close> puts on the console and in the
  file at time \<open>t\<close>, under the loggers that \<open>Init\<close> builds from a configuration.
\<close>

definition console_line :: "environ \<Rightarrow> Config \<Rightarrow> Level \<Rightarrow> civil_time \<Rightarrow> string \<Rightarrow> string" where
  "console_line env cfg l t body =
     (if Colorize cfg
      then color_prefix (IncludeLevelPrefix cfg) l @ format_stamp t @ body @ [CHR 0x0A]
      else syslog_copy env l (plain_prefix (IncludeLevelPrefix cfg) l @ body @ [CHR 0x0A]))"

definition file_line :: "Config \<Rightarrow> Level \<Rightarrow> civil_time \<Rightarrow> string \<Rightarrow> string" where
  "file_line cfg l t body =
     (if Colorize cfg
      then strip_loop False (color_prefix (IncludeLevelPrefix cfg) l @ format_stamp t @ body @ [CHR 0x0A])
      else format_stamp t @ plain_prefix (IncludeLevelPrefix cfg) l @ body @ [CHR 0x0A])"

section \<open>The specification's wording, for comparison with the code\<close>

text \<open>
  The field encoder as the specification words it: the complete pairs of the
  argument list (positions \<open>2j\<close> and \<open>2j+1\<close>), of these the pairs whose key is a
  text string, each rendered as a space followed by \<open>key=value\<close>.
\<close>

definition complete_pairs :: "any list \<Rightarrow> (any \<times> any) list" where
  "complete_pairs keyvals =
     map (\<lambda>j. (keyvals ! (2 * j), keyvals ! (2 * j + 1))) [0..<length keyvals div 2]"

definition text_keyed :: "(any \<times> any) list \<Rightarrow> (string \<times> any) list" where
  "text_keyed pairs =
     List.map_filter (\<lambda>(k, v). case k of AStr key \<Rightarrow> Some (key, v) | _ \<Rightarrow> None) pairs"

definition spec_encode :: "any list \<Rightarrow> string" where
  "spec_encode keyvals =
     concat (map (\<lambda>(key, v). '' '' @ key @ ''='' @ fmt_v v) (text_keyed (complete_pairs keyvals)))"

text \<open>
  The severity names as the specification lists them: each severity with the
  spellings accepted for it, and the enabled set an environment value stands for
  (every severity when the value is empty after trimming; otherwise the severities
  named by one of its comma-separated pieces, trimmed, in any letter case).
\<close>

fun spec_names :: "Level \<Rightarrow> string list" where
  "spec_names DebugLevel = [''DEBUG'']"
| "spec_names InfoLevel = [''INFO'']"
| "spec_names NoticeLevel = [''NOTICE'']"
| "spec_names WarnLevel = [''WARNING'']"
| "spec_names ErrorLevel = [''ERROR'']"
| "spec_names CritLevel = [''CRIT'', ''CRITICAL'']"
| "spec_names AlertLevel = [''ALERT'']"
| "spec_names EmergLevel = [''EMERG'', ''EMERGENCY'']"
| "spec_names FatalLevel = [''FATAL'']"

definition spec_enabled :: "string \<Rightarrow> Level \<Rightarrow> bool" where
  "spec_enabled v l =
     (if TrimSpace v = [] then True
      else list_ex (\<lambda>tok. ToUpper (TrimSpace tok) \<in> set (spec_names l))
             (Split (TrimSpace v) CHR '',''))"

text \<open>
  The lines of a text, each with its terminating newline; a last line without a
  newline counts when it is not empty.
\<close>

fun text_lines :: "string \<Rightarrow> string list" where
  "text_lines [] = []"
| "text_lines (c # cs) =
     (if c = CHR 0x0A then [c] # text_lines cs
      else (case text_lines cs of [] \<Rightarrow> [[c]] | ln # lns \<Rightarrow> (c # ln) # lns))"

text \<open>
  Escape stripping as the specification words it: the two bytes ESC and \<open>[\<close> start
  a run that ends with the next \<open>m\<close> (or with the text, when no \<open>m\<close> follows), and the
  run is removed.
\<close>

function strip_spec :: "string \<Rightarrow> string" where
  "strip_spec [] = []"
| "strip_spec [c] = [c]"
| "strip_spec (c # d # cs) =
     (if c = CHR 0x1B \<and> d = CHR ''[''
      then strip_spec (drop 1 (dropWhile (\<lambda>x. x \<noteq> CHR ''m'') cs))
      else c # strip_spec (d # cs))"
  by pat_completeness auto
termination
proof (relation "measure length")
  show "wf (measure length)" by simp
next
  fix c d :: char and cs :: string
  have "length (dropWhile (\<lambda>x. x \<noteq> CHR ''m'') cs) \<le> length cs"
    by (rule length_dropWhile_le)
  then show "(drop 1 (dropWhile (\<lambda>x. x \<noteq> CHR ''m'') cs), c # d # cs) \<in> measure length"
    by simp
next
  fix c d :: char and cs :: string
  show "(d # cs, c # d # cs) \<in> measure length" by simp
qed

text \<open>
  The canonical long name of each severity, as the specification's list of name
  aliases gives it (\<open>CRITICAL\<close> and \<open>EMERGENCY\<close> are the long forms, \<open>CRIT\<close> and
  \<open>EMERG\<close> the short ones).
\<close>

fun spec_long_name :: "Level \<Rightarrow> string" where
  "spec_long_name DebugLevel = ''DEBUG''"
| "spec_long_name InfoLevel = ''INFO''"
| "spec_long_name NoticeLevel = ''NOTICE''"
| "spec_long_name WarnLevel = ''WARNING''"
| "spec_long_name ErrorLevel = ''ERROR''"
| "spec_long_name CritLevel = ''CRITICAL''"
| "spec_long_name AlertLevel = ''ALERT''"
| "spec_long_name EmergLevel = ''EMERGENCY''"
| "spec_long_name FatalLevel = ''FATAL''"

section \<open>Example inputs\<close>

definition example_clock :: civil_time where
  "example_clock = \<lparr>year = 2026, month = 11, day = 1, hour = 6, minute = 41, second = 5\<rparr>"

definition example_world :: world where
  "example_world =
     \<lparr>stdout = [], stderr = [], disk = Map.empty, fds = Map.empty, next_fd = 0,
      open_fails = [''/nonexistent/directory/test.log'' \<mapsto> ''no such file or directory''],
      close_fails = Map.empty, now = example_clock\<rparr>"

definition example_config :: Config where
  "example_config =
     \<lparr>Levels = None, Colorize = False, FilePath = [], IncludeLevelPrefix = False,
      IncludeCallerTag = False\<rparr>"

definition color_file_config :: Config where
  "color_file_config = example_config\<lparr>Colorize := True, FilePath := ''/tmp/app.log''\<rparr>"

definition plain_file_config :: Config where
  "plain_file_config =
     example_config\<lparr>FilePath := ''/tmp/app.log'', IncludeLevelPrefix := True\<rparr>"

section \<open>Properties of the model\<close>

lemma show_nat_small [simp]: "n < 10 \<Longrightarrow> show_nat n = [digit_char n]"
  by simp

declare show_nat.simps [simp del]

subsection \<open>What one \<open>Println\<close> writes\<close>

lemma Write_level_out:
  "Write (level_out l) p w = (console_append l p w, length p, None)"
  by (cases l) (simp_all add: console_append_def)

lemma syslog_token_nonempty: "syslogPrefixForLevel (level_string l) \<noteq> []"
  by (cases l) (simp_all add: syslogPrefixForLevel_def)

lemma Write_plain_console:
  "p \<noteq> [] \<Longrightarrow>
   Write (if shouldUseSyslogPrefix env \<and> syslogPrefixForLevel (level_string l) \<noteq> []
          then syslogPrefixWriter (level_out l) (syslogPrefixForLevel (level_string l))
          else level_out l) p w
   = (console_append l (syslog_copy env l p) w, length p, None)"
  by (simp add: Write_level_out syslog_token_nonempty syslog_copy_def)

lemma now_console_append [simp]: "now (console_append l p w) = now w"
  by (simp add: console_append_def)

lemma fds_console_append [simp]: "fds (console_append l p w) = fds w"
  by (simp add: console_append_def)

lemma disk_console_append [simp]: "disk (console_append l p w) = disk w"
  by (simp add: console_append_def)

lemma file_write_open:
  "fds w h = Some path \<Longrightarrow> file_write h p w = (file_append path p w, length p, None)"
  by (simp add: file_write_def file_append_def file_text_def)

lemma file_write_closed:
  "fds w h = None \<Longrightarrow> file_write h p w = (w, 0, Some ErrClosed)"
  by (simp add: file_write_def)

lemma Println_plain_nofile:
  "Println (newPlainLogger env (level_out l) (level_string l) showLevel None) msg w
   = console_append l (syslog_copy env l (plain_prefix showLevel l @ msg @ [CHR 0x0A])) w"
  by (simp add: Println_def newPlainLogger_def log_New_def formatHeader_def Let_def
      Write_level_out syslog_token_nonempty syslog_copy_def prefixForLog_def plain_prefix_def )

lemma Println_plain_file:
  "fds w h = Some path \<Longrightarrow>
   Println (newPlainLogger env (level_out l) (level_string l) showLevel (Some (FileWriter h))) msg w
   = file_append path (format_stamp (now w) @ plain_prefix showLevel l @ msg @ [CHR 0x0A])
       (console_append l (syslog_copy env l (plain_prefix showLevel l @ msg @ [CHR 0x0A])) w)"
  by (simp add: Println_def newPlainLogger_def log_New_def formatHeader_def Let_def
      Write_level_out syslog_token_nonempty syslog_copy_def prefixForLog_def plain_prefix_def file_write_open )

lemma Println_plain_closed:
  "fds w h = None \<Longrightarrow>
   Println (newPlainLogger env (level_out l) (level_string l) showLevel (Some (FileWriter h))) msg w
   = console_append l (syslog_copy env l (plain_prefix showLevel l @ msg @ [CHR 0x0A])) w"
  by (simp add: Println_def newPlainLogger_def log_New_def formatHeader_def Let_def
      Write_level_out syslog_token_nonempty syslog_copy_def prefixForLog_def plain_prefix_def file_write_closed )

lemma Println_color_nofile:
  "Println (newColorLogger (level_out l) (level_string l) showLevel None) msg w
   = console_append l (color_prefix showLevel l @ format_stamp (now w) @ msg @ [CHR 0x0A]) w"
  by (simp add: Println_def newColorLogger_def log_New_def formatHeader_def Let_def
      Write_level_out prefixForLog_def color_prefix_def reset_def )

lemma Println_color_file:
  "fds w h = Some path \<Longrightarrow>
   Println (newColorLogger (level_out l) (level_string l) showLevel (Some (FileWriter h))) msg w
   = file_append path (strip_loop False (color_prefix showLevel l @ format_stamp (now w) @ msg @ [CHR 0x0A]))
       (console_append l (color_prefix showLevel l @ format_stamp (now w) @ msg @ [CHR 0x0A]) w)"
  by (simp add: Println_def newColorLogger_def log_New_def formatHeader_def Let_def
      Write_level_out prefixForLog_def color_prefix_def reset_def file_write_open )

lemma Println_color_closed:
  "fds w h = None \<Longrightarrow>
   Println (newColorLogger (level_out l) (level_string l) showLevel (Some (FileWriter h))) msg w
   = console_append l (color_prefix showLevel l @ format_stamp (now w) @ msg @ [CHR 0x0A]) w"
  by (simp add: Println_def newColorLogger_def log_New_def formatHeader_def Let_def
      Write_level_out prefixForLog_def color_prefix_def reset_def file_write_closed )

subsection \<open>\<open>Init\<close> and the loggers it builds\<close>

lemma open_log_file_empty: "open_log_file [] w = (w, None)"
  by (simp add: open_log_file_def)

lemma open_log_file_fails:
  "path \<noteq> [] \<Longrightarrow> open_fails w path = Some e \<Longrightarrow>
   open_log_file path w =
     (w\<lparr>stderr := stderr w @ ''failed to open log file '' @ path @ '': '' @ e @ [CHR 0x0A]\<rparr>, None)"
  by (simp add: open_log_file_def OpenFile_def error_text_def)

lemma open_log_file_opens:
  "path \<noteq> [] \<Longrightarrow> open_fails w path = None \<Longrightarrow>
   open_log_file path w =
     (w\<lparr>disk := (disk w)(path \<mapsto> file_text path w),
        fds := (fds w)(next_fd w \<mapsto> path),
        next_fd := Suc (next_fd w)\<rparr>, Some (next_fd w))"
  by (simp add: open_log_file_def OpenFile_def file_text_def)

lemma open_log_file_handle:
  "snd (open_log_file path w) = (if path \<noteq> [] \<and> open_fails w path = None then Some (next_fd w) else None)"
  by (cases "open_fails w path") (auto simp: open_log_file_def OpenFile_def)

lemma Init_Loggers:
  "Loggers (fst (Init env cfg st w0)) l =
     (if Colorize cfg
      then newColorLogger (level_out l) (level_string l) (IncludeLevelPrefix cfg)
             (map_option FileWriter (snd (open_log_file (FilePath cfg) w0)))
      else newPlainLogger env (level_out l) (level_string l) (IncludeLevelPrefix cfg)
             (map_option FileWriter (snd (open_log_file (FilePath cfg) w0))))"
  by (simp add: Init_def Let_def split: prod.splits)

lemma Init_enabledLevels:
  "enabledLevels (fst (Init env cfg st w0)) = resolveLevels env (Levels cfg)"
  by (simp add: Init_def Let_def split: prod.splits)

lemma Init_includeCallerTag:
  "includeCallerTag (fst (Init env cfg st w0)) = IncludeCallerTag cfg"
  by (simp add: Init_def Let_def split: prod.splits)

lemma Init_logFile:
  "logFile (fst (Init env cfg st w0)) =
     (case snd (open_log_file (FilePath cfg) w0) of Some f \<Rightarrow> Some f | None \<Rightarrow> logFile st)"
  by (simp add: Init_def Let_def split: prod.splits)

lemma Init_world: "snd (Init env cfg st w0) = fst (open_log_file (FilePath cfg) w0)"
  by (simp add: Init_def Let_def split: prod.splits)

lemma Println_Init_nofile:
  "snd (open_log_file (FilePath cfg) w0) = None \<Longrightarrow>
   Println (Loggers (fst (Init env cfg st w0)) l) body w
   = console_append l (console_line env cfg l (now w) body) w"
  by (simp add: Init_Loggers console_line_def Println_plain_nofile Println_color_nofile)

lemma Println_Init_closed:
  "snd (open_log_file (FilePath cfg) w0) = Some h \<Longrightarrow> fds w h = None \<Longrightarrow>
   Println (Loggers (fst (Init env cfg st w0)) l) body w
   = console_append l (console_line env cfg l (now w) body) w"
  by (simp add: Init_Loggers console_line_def Println_plain_closed Println_color_closed)

lemma Println_Init_file:
  "snd (open_log_file (FilePath cfg) w0) = Some h \<Longrightarrow> fds w h = Some path \<Longrightarrow>
   Println (Loggers (fst (Init env cfg st w0)) l) body w
   = file_append path (file_line cfg l (now w) body)
       (console_append l (console_line env cfg l (now w) body) w)"
  by (simp add: Init_Loggers console_line_def file_line_def Println_plain_file Println_color_file)

lemma console_console_append [simp]: "console l (console_append l p w) = console l w @ p"
  by (simp add: console_def console_append_def)

lemma console_file_append [simp]: "console l (file_append path p w) = console l w"
  by (simp add: console_def file_append_def)

lemma file_text_file_append [simp]: "file_text path (file_append path p w) = file_text path w @ p"
  by (simp add: file_text_def file_append_def)

lemma file_text_console_append [simp]: "file_text path (console_append l p w) = file_text path w"
  by (simp add: file_text_def)

lemma console_Println_Init:
  "console l (Println (Loggers (fst (Init env cfg st w0)) l) body w)
   = console l w @ console_line env cfg l (now w) body"
proof (cases "snd (open_log_file (FilePath cfg) w0)")
  case None
  then show ?thesis by (simp add: Println_Init_nofile)
next
  case (Some h)
  then show ?thesis
    by (cases "fds w h") (simp_all add: Println_Init_closed Println_Init_file)
qed

lemma dispatch_world:
  "fst (dispatch level st frame msg w) =
     (if isLevelEnabled st level
      then Println (Loggers st level) (formatWithCaller st frame msg) w else w)"
  by (simp add: dispatch_def)

lemma dispatch_outcome:
  "snd (dispatch level st frame msg w) = (if level = FatalLevel then Exited 1 else Returned)"
  by (simp add: dispatch_def)

subsection \<open>The status-code entry point\<close>

lemma statusCodeToLevel_range:
  "statusCodeToLevel code = ErrorLevel \<or> statusCodeToLevel code = WarnLevel
     \<or> statusCodeToLevel code = InfoLevel"
  by (simp add: statusCodeToLevel_def)

lemma Api_Println:
  "Api st frame code msg w =
     (if isLevelEnabled st (statusCodeToLevel code)
      then Println (Loggers st (statusCodeToLevel code))
             (formatWithCaller st frame (''['' @ show_int code @ ''] '' @ msg)) w
      else w)"
  using statusCodeToLevel_range [of code] by (auto simp: Api_def Let_def)

lemma Api_dispatch:
  "Api st frame code msg w =
     fst (dispatch (statusCodeToLevel code) st frame (''['' @ show_int code @ ''] '' @ msg) w)"
  by (simp add: Api_Println dispatch_world)

lemma disk_Println_Init_nofile:
  "snd (open_log_file (FilePath cfg) w0) = None \<Longrightarrow>
   disk (Println (Loggers (fst (Init env cfg st w0)) l) body w) = disk w"
  by (simp add: Println_Init_nofile)

subsection \<open>The field encoder\<close>

lemma complete_pairs_Nil [simp]: "complete_pairs [] = []"
  by (simp add: complete_pairs_def)

lemma complete_pairs_single [simp]: "complete_pairs [k] = []"
  by (simp add: complete_pairs_def)

lemma complete_pairs_Cons2 [simp]:
  "complete_pairs (k # v # rest) = (k, v) # complete_pairs rest"
proof -
  have "[0..<Suc (length rest div 2)] = 0 # map Suc [0..<length rest div 2]"
    by (simp add: upt_conv_Cons map_Suc_upt del: upt_Suc)
  then show ?thesis
    by (simp add: complete_pairs_def comp_def del: upt_Suc)
qed

lemma encodeFields_loop_pairs:
  "encodeFields_loop keyvals =
     map (\<lambda>(key, v). key @ ''='' @ fmt_v v) (text_keyed (complete_pairs keyvals))"
  by (induction keyvals rule: encodeFields_loop.induct)
     (simp_all add: text_keyed_def split: any.splits)

lemma Join_leading_space:
  "parts \<noteq> [] \<Longrightarrow> '' '' @ Join parts '' '' = concat (map (\<lambda>p. '' '' @ p) parts)"
  by (induction parts "'' ''" rule: Join.induct) simp_all

lemma encodeFields_spec: "encodeFields keyvals = spec_encode keyvals"
proof (cases "encodeFields_loop keyvals = []")
  case True
  then show ?thesis
    by (simp add: encodeFields_def spec_encode_def encodeFields_loop_pairs)
next
  case False
  then have ne: "keyvals \<noteq> []" by auto
  have "encodeFields keyvals = '' '' @ Join (encodeFields_loop keyvals) '' ''"
    using False ne by (simp add: encodeFields_def)
  also have "\<dots> = concat (map (\<lambda>p. '' '' @ p) (encodeFields_loop keyvals))"
    using False by (rule Join_leading_space)
  also have "\<dots> = spec_encode keyvals"
    by (simp add: spec_encode_def encodeFields_loop_pairs comp_def case_prod_unfold)
  finally show ?thesis .
qed

lemma encodeFields_loop_trailing:
  "encodeFields_loop keyvals = encodeFields_loop (take (2 * (length keyvals div 2)) keyvals)"
  by (induction keyvals rule: encodeFields_loop.induct) (simp_all split: any.splits)

lemma encodeFields_parts:
  "encodeFields keyvals =
     (if encodeFields_loop keyvals = [] then [] else '' '' @ Join (encodeFields_loop keyvals) '' '')"
  by (cases keyvals) (simp_all add: encodeFields_def)

lemma encodeFields_trailing:
  "encodeFields keyvals = encodeFields (take (2 * (length keyvals div 2)) keyvals)"
  using encodeFields_loop_trailing [of keyvals] by (simp only: encodeFields_parts)

lemma spec_encode_text_key:
  "spec_encode (AStr key # v # rest) = '' '' @ key @ ''='' @ fmt_v v @ spec_encode rest"
  by (simp add: spec_encode_def text_keyed_def)

lemma spec_encode_other_key:
  "(case k of AStr key \<Rightarrow> False | _ \<Rightarrow> True) \<Longrightarrow> spec_encode (k # v # rest) = spec_encode rest"
  by (simp add: spec_encode_def text_keyed_def split: any.splits)

subsection \<open>Level resolution\<close>

lemma lookup_level_upd [simp]:
  "lookup_level (m(k \<mapsto> True)) l = (l = k \<or> lookup_level m l)"
  by (simp add: lookup_level_def)

lemma lookup_level_empty [simp]: "lookup_level Map.empty l = False"
  by (simp add: lookup_level_def)

lemma lookup_levelsFromSlice_loop:
  "lookup_level (levelsFromSlice_loop m ls) l = (lookup_level m l \<or> l \<in> set ls)"
  by (induction ls arbitrary: m) auto

lemma lookup_parseLevels_case:
  "lookup_level (parseLevels_case m p) l =
     (lookup_level m l \<or> ToUpper (TrimSpace p) \<in> set (spec_names l))"
  by (cases l) (auto simp: parseLevels_case_def Let_def)

lemma lookup_parseLevels_loop:
  "lookup_level (parseLevels_loop m ps) l =
     (lookup_level m l \<or> list_ex (\<lambda>tok. ToUpper (TrimSpace tok) \<in> set (spec_names l)) ps)"
  by (induction ps arbitrary: m) (auto simp: lookup_parseLevels_case)

lemma lookup_all_enabled: "lookup_level allLevelsEnabled l = True"
  by (cases l) (simp_all add: allLevelsEnabled_def)

lemma lookup_parseLevels: "lookup_level (parseLevels v) l = spec_enabled v l"
proof (cases "TrimSpace v = []")
  case True
  have "lookup_level (parseLevels v) l = lookup_level allLevelsEnabled l"
    using True by (simp add: parseLevels_def allLevelsEnabled_def)
  then show ?thesis
    using True by (simp add: lookup_all_enabled spec_enabled_def)
next
  case False
  then show ?thesis
    by (simp add: parseLevels_def spec_enabled_def lookup_parseLevels_loop)
qed

lemma TrimSpace_Nil [simp]: "TrimSpace [] = []"
  by (simp add: TrimSpace_def)

subsection \<open>Syslog prefix, escape stripping and the shape of the time stamp\<close>

lemma text_lines_eq_Nil [simp]: "(text_lines s = []) = (s = [])"
  by (cases s) (simp_all split: list.splits)

lemma syslog_loop_lines:
  "tok @ syslog_loop tok (c # cs) = concat (map (\<lambda>ln. tok @ ln) (text_lines (c # cs)))"
proof (induction cs arbitrary: c)
  case Nil
  then show ?case by simp
next
  case (Cons d ds)
  show ?case
  proof (cases "c = CHR 0x0A")
    case True
    then show ?thesis
      using Cons.IH [of d] by simp
  next
    case False
    obtain ln lns where l: "text_lines (d # ds) = ln # lns"
      by (cases "text_lines (d # ds)") (simp_all del: text_lines.simps)
    have "tok @ syslog_loop tok (d # ds) = tok @ ln @ concat (map (\<lambda>ln. tok @ ln) lns)"
      using Cons.IH [of d] by (simp add: l del: text_lines.simps syslog_loop.simps)
    then have "syslog_loop tok (d # ds) = ln @ concat (map (\<lambda>ln. tok @ ln) lns)"
      by simp
    moreover have "syslog_loop tok (c # d # ds) = c # syslog_loop tok (d # ds)"
      using False by simp
    moreover have "text_lines (c # d # ds) = (c # ln) # lns"
      by (subst text_lines.simps(2)) (simp add: False l del: text_lines.simps)
    ultimately show ?thesis
      by (simp del: text_lines.simps syslog_loop.simps)
  qed
qed

lemma concat_text_lines: "concat (text_lines s) = s"
  by (induction s) (auto split: list.splits)

lemma syslog_copy_lines:
  "syslog_copy env l (pre @ body @ [CHR 0x0A]) =
     (if Getenv env ''JOURNAL_STREAM'' \<noteq> []
      then concat (map (\<lambda>ln. syslogPrefixForLevel (level_string l) @ ln)
                    (text_lines (pre @ body @ [CHR 0x0A])))
      else pre @ body @ [CHR 0x0A])"
proof -
  obtain c cs where e: "pre @ body @ [CHR 0x0A] = c # cs"
    by (cases "pre @ body @ [CHR 0x0A]") simp_all
  show ?thesis
    unfolding e by (simp add: syslog_copy_def shouldUseSyslogPrefix_def syslog_loop_lines
        del: text_lines.simps syslog_loop.simps)
qed

lemma file_Println_Init:
  "snd (open_log_file (FilePath cfg) w0) = Some h \<Longrightarrow> fds w h = Some path \<Longrightarrow>
   file_text path (Println (Loggers (fst (Init env cfg st w0)) l) body w)
   = file_text path w @ file_line cfg l (now w) body"
  by (simp add: Println_Init_file)

lemma strip_loop_in_escape:
  "strip_loop True s = strip_loop False (drop 1 (dropWhile (\<lambda>x. x \<noteq> CHR ''m'') s))"
  by (induction s) (auto split: list.splits)

lemma strip_loop_spec: "strip_loop False s = strip_spec s"
proof (induction s rule: strip_spec.induct)
  case 1
  then show ?case by simp
next
  case (2 c)
  then show ?case by simp
next
  case (3 c d cs)
  show ?case
  proof (cases "c = CHR 0x1B \<and> d = CHR ''[''")
    case True
    have "strip_loop False (c # d # cs) = strip_loop True (d # cs)"
      using True by simp
    also have "\<dots> = strip_loop False (drop 1 (dropWhile (\<lambda>x. x \<noteq> CHR ''m'') cs))"
      using True by (subst strip_loop_in_escape) simp
    also have "\<dots> = strip_spec (c # d # cs)"
      using True 3(1) by simp
    finally show ?thesis .
  next
    case False
    then have "strip_loop False (c # d # cs) = c # strip_loop False (d # cs)"
      by auto
    then show ?thesis
      using False 3(2) by auto
  qed
qed

lemma set_strip_loop: "set (strip_loop b s) \<subseteq> set s"
  by (induction s arbitrary: b) (auto split: if_splits)

lemma strip_loop_plain_append:
  "CHR 0x1B \<notin> set a \<Longrightarrow> strip_loop False (a @ s) = a @ strip_loop False s"
  by (induction a) auto

lemma strip_loop_plain: "CHR 0x1B \<notin> set a \<Longrightarrow> strip_loop False a = a"
  using strip_loop_plain_append [of a "[]"] by simp

lemma strip_loop_colors:
  "strip_loop False (colors (level_string l) @ s) = strip_loop False s"
  by (cases l) (simp_all add: colors_def)

lemma strip_loop_reset: "strip_loop False (reset @ s) = strip_loop False s"
  by (simp add: reset_def)

lemma level_string_no_esc: "CHR 0x1B \<notin> set (level_string l)"
  by (cases l) simp_all

lemma strip_loop_color_prefix:
  "strip_loop False (color_prefix showLevel l @ s) = plain_prefix showLevel l @ strip_loop False s"
proof (cases showLevel)
  case False
  then show ?thesis by (simp add: color_prefix_def plain_prefix_def)
next
  case True
  have "strip_loop False (color_prefix showLevel l @ s)
        = strip_loop False ((''['' @ level_string l @ '']'') @ reset @ '' '' @ s)"
    using True by (simp add: color_prefix_def strip_loop_colors del: strip_loop.simps)
  also have "\<dots> = (''['' @ level_string l @ '']'') @ strip_loop False (reset @ '' '' @ s)"
    by (rule strip_loop_plain_append) (simp add: level_string_no_esc)
  also have "\<dots> = plain_prefix showLevel l @ strip_loop False s"
    using True by (simp add: strip_loop_reset plain_prefix_def del: strip_loop.simps) simp
  finally show ?thesis .
qed

lemma digit_char_is_digit: "is_digit (digit_char d)"
proof -
  have "k < 10 \<Longrightarrow> k = 0 \<or> k = 1 \<or> k = 2 \<or> k = 3 \<or> k = 4 \<or> k = 5 \<or> k = 6 \<or> k = 7
          \<or> k = 8 \<or> k = 9" for k :: nat
    by arith
  from this [of "d mod 10"] show ?thesis
    by (auto simp: digit_char_def is_digit_def)
qed

lemma show_nat_digits: "list_all is_digit (show_nat n)"
  by (induction n rule: show_nat.induct) (subst show_nat.simps, simp add: digit_char_is_digit)

lemma length_show_nat_lt10: "n < 10 \<Longrightarrow> length (show_nat n) = 1"
  by simp

lemma length_show_nat_lt100: "n < 100 \<Longrightarrow> length (show_nat n) \<le> 2"
  by (subst show_nat.simps) simp

lemma length_show_nat_pos: "0 < length (show_nat n)"
  by (subst show_nat.simps) simp

lemma length_show_nat_lt10000: "n < 10000 \<Longrightarrow> length (show_nat n) \<le> 4"
proof -
  assume n: "n < 10000"
  have a: "m < 100 \<Longrightarrow> length (show_nat m) \<le> 2" for m
    by (rule length_show_nat_lt100)
  have b: "m < 1000 \<Longrightarrow> length (show_nat m) \<le> 3" for m
    using a [of "m div 10"] by (subst show_nat.simps) auto
  show ?thesis
    using n b [of "n div 10"] by (subst show_nat.simps) auto
qed

lemma pad_int_digits: "list_all is_digit (pad_int n wid)"
  using show_nat_digits [of n] by (auto simp: pad_int_def list_all_iff is_digit_def)

lemma length_pad_int: "length (show_nat n) \<le> wid \<Longrightarrow> length (pad_int n wid) = wid"
  by (simp add: pad_int_def)

lemma digits2:
  "length xs = 2 \<Longrightarrow> list_all is_digit xs \<Longrightarrow> \<exists>a b. xs = [a, b] \<and> is_digit a \<and> is_digit b"
  by (auto simp: length_Suc_conv numeral_2_eq_2)

lemma digits4:
  "length xs = 4 \<Longrightarrow> list_all is_digit xs \<Longrightarrow>
   \<exists>a b c d. xs = [a, b, c, d] \<and> is_digit a \<and> is_digit b \<and> is_digit c \<and> is_digit d"
  by (auto simp: length_Suc_conv eval_nat_numeral)

lemma pad2:
  "n < 100 \<Longrightarrow> \<exists>a b. pad_int n 2 = [a, b] \<and> is_digit a \<and> is_digit b"
  by (rule digits2) (simp_all add: length_pad_int length_show_nat_lt100 pad_int_digits)

lemma pad4:
  "n < 10000 \<Longrightarrow>
   \<exists>a b c d. pad_int n 4 = [a, b, c, d] \<and> is_digit a \<and> is_digit b \<and> is_digit c \<and> is_digit d"
  by (rule digits4) (simp_all add: length_pad_int length_show_nat_lt10000 pad_int_digits)

lemma stamp_shape:
  assumes "valid_clock t"
  shows "starts_with_stamp (format_stamp t @ rest)" and "length (format_stamp t) = 20"
proof -
  obtain y1 y2 y3 y4 where y: "pad_int (year t) 4 = [y1, y2, y3, y4]"
    "is_digit y1" "is_digit y2" "is_digit y3" "is_digit y4"
    using pad4 [of "year t"] assms by (auto simp: valid_clock_def)
  obtain m1 m2 where m: "pad_int (month t) 2 = [m1, m2]" "is_digit m1" "is_digit m2"
    using pad2 [of "month t"] assms by (auto simp: valid_clock_def)
  obtain d1 d2 where d: "pad_int (day t) 2 = [d1, d2]" "is_digit d1" "is_digit d2"
    using pad2 [of "day t"] assms by (auto simp: valid_clock_def)
  obtain h1 h2 where h: "pad_int (hour t) 2 = [h1, h2]" "is_digit h1" "is_digit h2"
    using pad2 [of "hour t"] assms by (auto simp: valid_clock_def)
  obtain i1 i2 where i: "pad_int (minute t) 2 = [i1, i2]" "is_digit i1" "is_digit i2"
    using pad2 [of "minute t"] assms by (auto simp: valid_clock_def)
  obtain s1 s2 where s: "pad_int (second t) 2 = [s1, s2]" "is_digit s1" "is_digit s2"
    using pad2 [of "second t"] assms by (auto simp: valid_clock_def)
  show "starts_with_stamp (format_stamp t @ rest)"
    by (simp add: starts_with_stamp_def format_stamp_def y m d h i s)
  show "length (format_stamp t) = 20"
    by (simp add: format_stamp_def y m d h i s)
qed

lemma is_digit_not_esc: "is_digit c \<Longrightarrow> c \<noteq> CHR 0x1B"
  by (auto simp: is_digit_def)

lemma pad_int_no_esc: "CHR 0x1B \<notin> set (pad_int n wid)"
  using pad_int_digits [of n wid] is_digit_not_esc by (auto simp: list_all_iff)

lemma format_stamp_no_esc: "CHR 0x1B \<notin> set (format_stamp t)"
  by (simp add: format_stamp_def pad_int_no_esc)

lemma esc_in_colors: "CHR 0x1B \<in> set (colors (level_string l))"
  by (cases l) (simp_all add: colors_def)

subsection \<open>Facts about the concrete inputs\<close>

lemma open_log_file_Some:
  "path \<noteq> [] \<Longrightarrow> open_fails w path = None \<Longrightarrow> snd (open_log_file path w) = Some (next_fd w)"
  by (simp add: open_log_file_handle)

lemma example_clock_valid: "valid_clock (now example_world)"
  by (simp add: example_world_def example_clock_def valid_clock_def)

lemma Init_now: "now (snd (Init env cfg st w0)) = now w0"
  by (cases "open_fails w0 (FilePath cfg)")
     (simp_all add: Init_world open_log_file_def OpenFile_def)

lemma format_stamp_example: "format_stamp example_clock = ''2026/11/01 06:41:05 ''"
  by code_simp

section \<open>Claims\<close>

text \<open>
  C3. A call for a severity that is not enabled changes nothing in the world (no byte
  on a console stream or in a file) and, for every severity but fatal, returns. A fatal
  call always ends the process with exit status 1: without writing when fatal is not
  enabled, after the line has been printed by the fatal logger when it is. Under the
  loggers of any \<open>Init\<close> that printed line lands on the standard-error stream and is
  not empty. The same holds for the key-value entry points.
\<close>

theorem disabled_silent_and_fatal_exits:
  "fst (dispatch level st frame msg w) =
     (if isLevelEnabled st level
      then Println (Loggers st level) (formatWithCaller st frame msg) w else w)
   \<and> snd (dispatch level st frame msg w) = (if level = FatalLevel then Exited 1 else Returned)
   \<and> fst (dispatchKV level st frame msg kvs w) =
     (if isLevelEnabled st level
      then Println (Loggers st level) (formatWithCaller st frame (msg @ encodeFields kvs)) w
      else w)
   \<and> snd (dispatchKV level st frame msg kvs w) =
     (if level = FatalLevel then Exited 1 else Returned)
   \<and> stderr (fst (dispatch FatalLevel (fst (Init env cfg st0 w0)) frame msg w)) =
     (if isLevelEnabled (fst (Init env cfg st0 w0)) FatalLevel
      then stderr w @ console_line env cfg FatalLevel (now w)
             (formatWithCaller (fst (Init env cfg st0 w0)) frame msg)
      else stderr w)
   \<and> console_line env cfg FatalLevel (now w) body \<noteq> []"
proof -
  have line: "console_line env cfg FatalLevel (now w) body \<noteq> []"
    by (simp add: console_line_def syslog_copy_def syslogPrefixForLevel_def)
  have err: "stderr v = console FatalLevel v" for v
    by (simp add: console_def)
  show ?thesis
    by (simp add: dispatch_world dispatch_outcome dispatchKV_def err console_Println_Init line)
qed

text \<open>
  C8. \<open>Api\<close> maps a status code of 500 or more to the error severity, a code from
  400 to 499 to the warning severity and every other code to the info severity (so
  200, 301 and 100 are info, 404 is warning, 500 is error). It is the dispatch of the
  mapped severity on the message with the bracketed code in front: it prints through
  that severity's logger when the severity is enabled and changes nothing otherwise.
\<close>

theorem api_status_mapping:
  "statusCodeToLevel code =
     (if 500 \<le> code then ErrorLevel else if 400 \<le> code \<and> code \<le> 499 then WarnLevel else InfoLevel)
   \<and> Api st frame code msg w =
       fst (dispatch (statusCodeToLevel code) st frame (''['' @ show_int code @ ''] '' @ msg) w)
   \<and> Api st frame code msg w =
       (if isLevelEnabled st (statusCodeToLevel code)
        then Println (Loggers st (statusCodeToLevel code))
               (formatWithCaller st frame (''['' @ show_int code @ ''] '' @ msg)) w
        else w)
   \<and> statusCodeToLevel 200 = InfoLevel \<and> statusCodeToLevel 301 = InfoLevel
   \<and> statusCodeToLevel 404 = WarnLevel \<and> statusCodeToLevel 500 = ErrorLevel
   \<and> statusCodeToLevel 100 = InfoLevel"
proof -
  have "statusCodeToLevel code =
     (if 500 \<le> code then ErrorLevel else if 400 \<le> code \<and> code \<le> 499 then WarnLevel else InfoLevel)"
    by (simp add: statusCodeToLevel_def)
  moreover have "statusCodeToLevel 200 = InfoLevel \<and> statusCodeToLevel 301 = InfoLevel
   \<and> statusCodeToLevel 404 = WarnLevel \<and> statusCodeToLevel 500 = ErrorLevel
   \<and> statusCodeToLevel 100 = InfoLevel"
    by (simp add: statusCodeToLevel_def)
  ultimately show ?thesis
    using Api_dispatch [of st frame code msg w] Api_Println [of st frame code msg w] by simp
qed

text \<open>
  C9. \<open>Close\<close> is the one operation with an error result (\<open>Init\<close>, \<open>dispatch\<close>,
  \<open>dispatchKV\<close> and \<open>Api\<close> have none in their types, as the Go functions have no
  result). With a stored handle it closes the file and returns what the close
  reported; with none stored it changes nothing and returns no error. After any
  \<open>Close\<close> no handle is stored, so a second \<open>Close\<close> is a no-op without error, as is
  a \<open>Close\<close> in the initial state.
\<close>

theorem close_surfaces_error_and_is_idempotent:
  assumes "Close st w = (st1, w1, e1)"
  shows "e1 = (case logFile st of
                 None \<Rightarrow> None
               | Some f \<Rightarrow>
                   (case fds w f of
                      None \<Rightarrow> Some ErrClosed
                    | Some path \<Rightarrow> map_option OSError (close_fails w f)))
    \<and> (case logFile st of
          None \<Rightarrow> st1 = st \<and> w1 = w
        | Some f \<Rightarrow> st1 = st\<lparr>logFile := None\<rparr> \<and> w1 = fst (file_close f w) \<and> fds w1 f = None)
    \<and> logFile st1 = None
    \<and> Close st1 w1 = (st1, w1, None)
    \<and> Close initial_state w = (initial_state, w, None)"
  using assms
  by (auto simp: Close_def file_close_def initial_state_def split: option.splits prod.splits)

theorem close_surfaces_error_and_is_idempotent_witness:
  "Close (initial_state\<lparr>logFile := Some 0\<rparr>)
     (example_world\<lparr>fds := [0 \<mapsto> ''/tmp/app.log''], close_fails := [0 \<mapsto> ''input/output error'']\<rparr>)
   = (fst (Close (initial_state\<lparr>logFile := Some 0\<rparr>)
        (example_world\<lparr>fds := [0 \<mapsto> ''/tmp/app.log''], close_fails := [0 \<mapsto> ''input/output error'']\<rparr>)),
      fst (snd (Close (initial_state\<lparr>logFile := Some 0\<rparr>)
        (example_world\<lparr>fds := [0 \<mapsto> ''/tmp/app.log''], close_fails := [0 \<mapsto> ''input/output error'']\<rparr>))),
      Some (OSError ''input/output error''))
   \<and> logFile (fst (Close (initial_state\<lparr>logFile := Some 0\<rparr>)
        (example_world\<lparr>fds := [0 \<mapsto> ''/tmp/app.log''], close_fails := [0 \<mapsto> ''input/output error'']\<rparr>))) = None"
  using close_surfaces_error_and_is_idempotent
    [of "initial_state\<lparr>logFile := Some 0\<rparr>"
        "example_world\<lparr>fds := [0 \<mapsto> ''/tmp/app.log''], close_fails := [0 \<mapsto> ''input/output error'']\<rparr>"
        "fst (Close (initial_state\<lparr>logFile := Some 0\<rparr>)
        (example_world\<lparr>fds := [0 \<mapsto> ''/tmp/app.log''], close_fails := [0 \<mapsto> ''input/output error'']\<rparr>))"
        "fst (snd (Close (initial_state\<lparr>logFile := Some 0\<rparr>)
        (example_world\<lparr>fds := [0 \<mapsto> ''/tmp/app.log''], close_fails := [0 \<mapsto> ''input/output error'']\<rparr>)))"
        "Some (OSError ''input/output error'')"]
  by (simp add: Close_def file_close_def initial_state_def example_world_def)

text \<open>
  C10. \<open>Init\<close> stores a handle only when the path is not empty and the open
  succeeds. Otherwise a handle \<open>h\<close> stored before stays stored, no call under the new
  loggers writes to any file, and \<open>Close\<close> then closes \<open>h\<close> and returns the result of
  that close.
\<close>

theorem init_keeps_prior_handle:
  assumes "logFile st = Some h"
    and "FilePath cfg = [] \<or> open_fails w0 (FilePath cfg) \<noteq> None"
    and "Init env cfg st w0 = (st', w1)"
  shows "logFile st' = Some h
    \<and> disk (fst (dispatch l st' frame msg w)) = disk w
    \<and> disk (Api st' frame code msg w) = disk w
    \<and> Close st' w = (st'\<lparr>logFile := None\<rparr>, fst (file_close h w), snd (file_close h w))
    \<and> snd (file_close h w) =
        (case fds w h of None \<Rightarrow> Some ErrClosed
         | Some path \<Rightarrow> map_option OSError (close_fails w h))
    \<and> fds (fst (file_close h w)) h = None
    \<and> logFile (fst (Init env cfg2 st w0)) =
        (if FilePath cfg2 \<noteq> [] \<and> open_fails w0 (FilePath cfg2) = None
         then Some (next_fd w0) else Some h)"
proof -
  have st': "st' = fst (Init env cfg st w0)"
    using assms(3) by simp
  have none: "snd (open_log_file (FilePath cfg) w0) = None"
    using assms(2) by (auto simp: open_log_file_handle)
  have lf: "logFile st' = Some h"
    using assms(1) none by (simp add: st' Init_logFile)
  have d1: "disk (fst (dispatch l st' frame msg w)) = disk w"
    by (simp add: st' dispatch_world disk_Println_Init_nofile [OF none])
  have d2: "disk (Api st' frame code msg w) = disk w"
    by (simp add: st' Api_Println disk_Println_Init_nofile [OF none])
  have cl: "Close st' w = (st'\<lparr>logFile := None\<rparr>, fst (file_close h w), snd (file_close h w))"
    using lf by (simp add: Close_def split: prod.splits)
  have fc: "snd (file_close h w) =
        (case fds w h of None \<Rightarrow> Some ErrClosed
         | Some path \<Rightarrow> map_option OSError (close_fails w h))"
    by (simp add: file_close_def split: option.splits)
  have fr: "fds (fst (file_close h w)) h = None"
    by (simp add: file_close_def split: option.splits)
  have gen: "logFile (fst (Init env cfg2 st w0)) =
        (if FilePath cfg2 \<noteq> [] \<and> open_fails w0 (FilePath cfg2) = None
         then Some (next_fd w0) else Some h)"
    using assms(1) by (simp add: Init_logFile open_log_file_handle)
  show ?thesis
    using lf d1 d2 cl fc fr gen by blast
qed

theorem init_keeps_prior_handle_witness:
  "logFile (fst (Init Map.empty (example_config\<lparr>FilePath := ''/tmp/app.log''\<rparr>)
              initial_state example_world)) = Some 0
   \<and> FilePath example_config = []
   \<and> logFile (fst (Init Map.empty example_config
        (fst (Init Map.empty (example_config\<lparr>FilePath := ''/tmp/app.log''\<rparr>)
               initial_state example_world))
        (snd (Init Map.empty (example_config\<lparr>FilePath := ''/tmp/app.log''\<rparr>)
               initial_state example_world)))) = Some 0
   \<and> snd (snd (Close (fst (Init Map.empty example_config
        (fst (Init Map.empty (example_config\<lparr>FilePath := ''/tmp/app.log''\<rparr>)
               initial_state example_world))
        (snd (Init Map.empty (example_config\<lparr>FilePath := ''/tmp/app.log''\<rparr>)
               initial_state example_world))))
        (example_world\<lparr>fds := [0 \<mapsto> ''/tmp/app.log''],
                        close_fails := [0 \<mapsto> ''input/output error'']\<rparr>)))
     = Some (OSError ''input/output error'')"
proof -
  have h: "logFile (fst (Init Map.empty (example_config\<lparr>FilePath := ''/tmp/app.log''\<rparr>)
              initial_state example_world)) = Some 0"
    by (simp add: Init_logFile open_log_file_handle example_world_def example_config_def)
  have e: "FilePath example_config = [] \<or> open_fails
        (snd (Init Map.empty (example_config\<lparr>FilePath := ''/tmp/app.log''\<rparr>)
               initial_state example_world)) (FilePath example_config) \<noteq> None"
    by (simp add: example_config_def)
  have c: "FilePath example_config = []"
    by (simp add: example_config_def)
  note inst = init_keeps_prior_handle [OF h e prod.collapse [symmetric],
        of _ _ _ _ "example_world\<lparr>fds := [0 \<mapsto> ''/tmp/app.log''],
                        close_fails := [0 \<mapsto> ''input/output error'']\<rparr>"]
  have kept: "logFile (fst (Init Map.empty example_config
        (fst (Init Map.empty (example_config\<lparr>FilePath := ''/tmp/app.log''\<rparr>)
               initial_state example_world))
        (snd (Init Map.empty (example_config\<lparr>FilePath := ''/tmp/app.log''\<rparr>)
               initial_state example_world)))) = Some 0"
    using inst by blast
  have "snd (file_close 0 (example_world\<lparr>fds := [0 \<mapsto> ''/tmp/app.log''],
                        close_fails := [0 \<mapsto> ''input/output error'']\<rparr>))
        = Some (OSError ''input/output error'')"
    using inst by simp
  moreover have "snd (snd (Close (fst (Init Map.empty example_config
        (fst (Init Map.empty (example_config\<lparr>FilePath := ''/tmp/app.log''\<rparr>)
               initial_state example_world))
        (snd (Init Map.empty (example_config\<lparr>FilePath := ''/tmp/app.log''\<rparr>)
               initial_state example_world))))
        (example_world\<lparr>fds := [0 \<mapsto> ''/tmp/app.log''],
                        close_fails := [0 \<mapsto> ''input/output error'']\<rparr>)))
     = snd (file_close 0 (example_world\<lparr>fds := [0 \<mapsto> ''/tmp/app.log''],
                        close_fails := [0 \<mapsto> ''input/output error'']\<rparr>))"
    using inst by simp
  ultimately show ?thesis
    using h c kept by simp
qed

text \<open>
  C7. \<open>encodeFields\<close> yields, for every argument list, a space and \<open>key=value\<close> for
  each complete pair whose key is a text string, in order, and nothing else: the
  result is empty when no pair survives, a trailing element without a partner is
  ignored, and a pair whose key is an integer, a boolean or any other value that is
  not a string is skipped.
\<close>

theorem encodeFields_pairs:
  "encodeFields keyvals = spec_encode keyvals
   \<and> encodeFields keyvals = encodeFields (take (2 * (length keyvals div 2)) keyvals)
   \<and> encodeFields (AInt i # v # rest) = encodeFields rest
   \<and> encodeFields (ABool b # v # rest) = encodeFields rest
   \<and> encodeFields (AOther t # v # rest) = encodeFields rest
   \<and> encodeFields (AStr key # v # rest) = '' '' @ key @ ''='' @ fmt_v v @ encodeFields rest
   \<and> encodeFields [] = []
   \<and> encodeFields [AStr ''k'', AInt 3, AInt 4, AInt 5, AStr ''z'', ABool True, AStr ''t'']
       = '' k=3 z=true''"
proof -
  have ex: "encodeFields [AStr ''k'', AInt 3, AInt 4, AInt 5, AStr ''z'', ABool True, AStr ''t'']
       = '' k=3 z=true''"
    by code_simp
  show ?thesis
    using encodeFields_trailing [of keyvals]
    by (simp add: ex)
       (simp add: encodeFields_spec spec_encode_text_key spec_encode_other_key spec_encode_def text_keyed_def)
qed

text \<open>
  C4. An explicit level list decides the enabled set alone: a severity is enabled
  exactly when it is in the list, so the empty list disables all. Without an explicit
  list, an environment value that is absent or empty after trimming enables every
  severity; any other value enables exactly the severities named by one of its
  comma-separated pieces, each piece trimmed and compared in upper case with the
  accepted spellings (\<open>CRIT\<close> and \<open>CRITICAL\<close>, \<open>EMERG\<close> and \<open>EMERGENCY\<close>,
  \<open>WARNING\<close> alone for warning), pieces that name nothing being ignored. The
  environment value is ASCII text.
\<close>

theorem resolve_levels:
  assumes "ascii_text (Getenv env ''LOGGER_LEVELS'')"
  shows "lookup_level (resolveLevels env (Some ls)) l = (l \<in> set ls)
    \<and> lookup_level (resolveLevels env (Some [])) l = False
    \<and> (if TrimSpace (Getenv env ''LOGGER_LEVELS'') = []
        then lookup_level (resolveLevels env None) l = True
        else lookup_level (resolveLevels env None) l =
               (\<exists>tok \<in> set (Split (TrimSpace (Getenv env ''LOGGER_LEVELS'')) CHR '','').
                   ToUpper (TrimSpace tok) \<in> set (spec_names l)))"
proof -
  have a: "lookup_level (resolveLevels env (Some ls)) l = (l \<in> set ls)" for ls
    by (simp add: resolveLevels_def levelsFromSlice_def lookup_levelsFromSlice_loop)
  have b: "lookup_level (resolveLevels env None) l = spec_enabled (Getenv env ''LOGGER_LEVELS'') l"
    by (cases "Getenv env ''LOGGER_LEVELS'' = []")
       (simp_all add: resolveLevels_def Let_def lookup_parseLevels lookup_all_enabled spec_enabled_def)
  show ?thesis
    using a [of ls] a [of "[]"] b by (simp add: spec_enabled_def list_ex_iff)
qed

theorem resolve_levels_witness:
  "ascii_text (Getenv [''LOGGER_LEVELS'' \<mapsto> '' info, Crit ,warn,EMERGENCY,bogus''] ''LOGGER_LEVELS'')
   \<and> lookup_level (resolveLevels [''LOGGER_LEVELS'' \<mapsto> '' info, Crit ,warn,EMERGENCY,bogus''] None)
        CritLevel = True
   \<and> lookup_level (resolveLevels [''LOGGER_LEVELS'' \<mapsto> '' info, Crit ,warn,EMERGENCY,bogus''] None)
        WarnLevel = False
   \<and> lookup_level (resolveLevels [''LOGGER_LEVELS'' \<mapsto> '' info, Crit ,warn,EMERGENCY,bogus'']
        (Some [DebugLevel])) CritLevel = False"
proof -
  let ?v = "'' info, Crit ,warn,EMERGENCY,bogus''"
  let ?env = "[''LOGGER_LEVELS'' \<mapsto> ?v]"
  have g: "Getenv ?env ''LOGGER_LEVELS'' = ?v"
    by (simp add: Getenv_def)
  have h: "ascii_text (Getenv ?env ''LOGGER_LEVELS'')"
    unfolding g by (simp add: ascii_text_def)
  have t: "TrimSpace ?v \<noteq> []"
    by code_simp
  have c: "\<exists>tok \<in> set (Split (TrimSpace ?v) CHR '',''). ToUpper (TrimSpace tok) \<in> set (spec_names CritLevel)"
    by code_simp
  have w: "\<not> (\<exists>tok \<in> set (Split (TrimSpace ?v) CHR '',''). ToUpper (TrimSpace tok) \<in> set (spec_names WarnLevel))"
    by code_simp
  have "lookup_level (resolveLevels ?env None) CritLevel = True"
    using resolve_levels [OF h, of "[DebugLevel]" CritLevel] t c unfolding g by simp
  moreover have "lookup_level (resolveLevels ?env None) WarnLevel = False"
    using resolve_levels [OF h, of "[DebugLevel]" WarnLevel] t w unfolding g by simp
  moreover have "lookup_level (resolveLevels ?env (Some [DebugLevel])) CritLevel = False"
    using resolve_levels [OF h, of "[DebugLevel]" CritLevel] by simp
  ultimately show ?thesis
    using h by simp
qed

text \<open>
  C5. For an enabled severity under the loggers of \<open>Init\<close>, the console text of a
  call carries the syslog token only when the output is not colorized and
  \<open>JOURNAL_STREAM\<close> is not empty; then the token stands in front of every line of
  the write (at the start and after every newline but a final one). The tokens are
  \<open><0>\<close> emergency, \<open><1>\<close> alert, \<open><2>\<close> critical, \<open><3>\<close> error, \<open><4>\<close> warning,
  \<open><5>\<close> notice, \<open><6>\<close> info, \<open><7>\<close> debug and \<open><2>\<close> fatal. The copy written to an
  open log file carries no token.
\<close>

theorem syslog_priority_prefix:
  assumes "isLevelEnabled (fst (Init env cfg st0 w0)) l"
  shows "console l (fst (dispatch l (fst (Init env cfg st0 w0)) frame msg w)) =
      console l w @
      (if Colorize cfg
       then color_prefix (IncludeLevelPrefix cfg) l @ format_stamp (now w) @
            formatWithCaller (fst (Init env cfg st0 w0)) frame msg @ [CHR 0x0A]
       else if Getenv env ''JOURNAL_STREAM'' \<noteq> []
       then concat (map (\<lambda>ln. syslogPrefixForLevel (level_string l) @ ln)
              (text_lines (plain_prefix (IncludeLevelPrefix cfg) l @
                 formatWithCaller (fst (Init env cfg st0 w0)) frame msg @ [CHR 0x0A])))
       else plain_prefix (IncludeLevelPrefix cfg) l @
            formatWithCaller (fst (Init env cfg st0 w0)) frame msg @ [CHR 0x0A])
    \<and> map (\<lambda>s. syslogPrefixForLevel (level_string s))
          [EmergLevel, AlertLevel, CritLevel, ErrorLevel, WarnLevel, NoticeLevel, InfoLevel,
           DebugLevel, FatalLevel]
        = [''<0>'', ''<1>'', ''<2>'', ''<3>'', ''<4>'', ''<5>'', ''<6>'', ''<7>'', ''<2>'']
    \<and> fst (Write (syslogPrefixWriter (level_out l) (syslogPrefixForLevel (level_string l)))
              (c # cs) w)
        = console_append l
            (concat (map (\<lambda>ln. syslogPrefixForLevel (level_string l) @ ln) (text_lines (c # cs)))) w
    \<and> concat (text_lines (c # cs)) = c # cs
    \<and> (case snd (open_log_file (FilePath cfg) w0) of
          None \<Rightarrow> True
        | Some h \<Rightarrow>
            (case fds w h of
               None \<Rightarrow> True
             | Some path \<Rightarrow>
                 file_text path (fst (dispatch l (fst (Init env cfg st0 w0)) frame msg w)) =
                   file_text path w @
                   (if Colorize cfg
                    then strip_loop False
                           (color_prefix (IncludeLevelPrefix cfg) l @ format_stamp (now w) @
                            formatWithCaller (fst (Init env cfg st0 w0)) frame msg @ [CHR 0x0A])
                    else format_stamp (now w) @ plain_prefix (IncludeLevelPrefix cfg) l @
                         formatWithCaller (fst (Init env cfg st0 w0)) frame msg @ [CHR 0x0A])))"
proof -
  let ?st = "fst (Init env cfg st0 w0)"
  have w': "fst (dispatch l ?st frame msg w)
            = Println (Loggers ?st l) (formatWithCaller ?st frame msg) w"
    using assms by (simp add: dispatch_world)
  have a: "console l (fst (dispatch l ?st frame msg w)) =
      console l w @
      (if Colorize cfg
       then color_prefix (IncludeLevelPrefix cfg) l @ format_stamp (now w) @
            formatWithCaller ?st frame msg @ [CHR 0x0A]
       else if Getenv env ''JOURNAL_STREAM'' \<noteq> []
       then concat (map (\<lambda>ln. syslogPrefixForLevel (level_string l) @ ln)
              (text_lines (plain_prefix (IncludeLevelPrefix cfg) l @
                 formatWithCaller ?st frame msg @ [CHR 0x0A])))
       else plain_prefix (IncludeLevelPrefix cfg) l @
            formatWithCaller ?st frame msg @ [CHR 0x0A])"
    unfolding w' console_Println_Init console_line_def syslog_copy_lines by simp
  have b: "map (\<lambda>s. syslogPrefixForLevel (level_string s))
          [EmergLevel, AlertLevel, CritLevel, ErrorLevel, WarnLevel, NoticeLevel, InfoLevel,
           DebugLevel, FatalLevel]
        = [''<0>'', ''<1>'', ''<2>'', ''<3>'', ''<4>'', ''<5>'', ''<6>'', ''<7>'', ''<2>'']"
    by (simp add: syslogPrefixForLevel_def)
  have c: "fst (Write (syslogPrefixWriter (level_out l) (syslogPrefixForLevel (level_string l)))
              (c # cs) w)
        = console_append l
            (concat (map (\<lambda>ln. syslogPrefixForLevel (level_string l) @ ln) (text_lines (c # cs)))) w"
    by (simp add: syslog_token_nonempty Write_level_out syslog_loop_lines
          del: syslog_loop.simps text_lines.simps)
  have d: "concat (text_lines (c # cs)) = c # cs"
    by (rule concat_text_lines)
  have e: "(case snd (open_log_file (FilePath cfg) w0) of
          None \<Rightarrow> True
        | Some h \<Rightarrow>
            (case fds w h of
               None \<Rightarrow> True
             | Some path \<Rightarrow>
                 file_text path (fst (dispatch l ?st frame msg w)) =
                   file_text path w @
                   (if Colorize cfg
                    then strip_loop False
                           (color_prefix (IncludeLevelPrefix cfg) l @ format_stamp (now w) @
                            formatWithCaller ?st frame msg @ [CHR 0x0A])
                    else format_stamp (now w) @ plain_prefix (IncludeLevelPrefix cfg) l @
                         formatWithCaller ?st frame msg @ [CHR 0x0A])))"
    unfolding w' by (simp add: file_Println_Init file_line_def split: option.splits)
  show ?thesis
    using a b c d e by blast
qed

theorem syslog_priority_prefix_witness:
  "isLevelEnabled
     (fst (Init [''JOURNAL_STREAM'' \<mapsto> ''1:2'']
             (example_config\<lparr>Levels := Some [DebugLevel, InfoLevel], IncludeLevelPrefix := True\<rparr>)
             initial_state example_world)) DebugLevel
   \<and> stdout (fst (dispatch DebugLevel
        (fst (Init [''JOURNAL_STREAM'' \<mapsto> ''1:2'']
             (example_config\<lparr>Levels := Some [DebugLevel, InfoLevel], IncludeLevelPrefix := True\<rparr>)
             initial_state example_world))
        None (''dbg'' @ [CHR 0x0A] @ ''more'') example_world))
     = ''<7>[DEBUG] dbg'' @ [CHR 0x0A] @ ''<7>more'' @ [CHR 0x0A]"
proof -
  let ?env = "[''JOURNAL_STREAM'' \<mapsto> ''1:2'']"
  let ?cfg = "example_config\<lparr>Levels := Some [DebugLevel, InfoLevel], IncludeLevelPrefix := True\<rparr>"
  have h: "isLevelEnabled (fst (Init ?env ?cfg initial_state example_world)) DebugLevel"
    by (simp add: isLevelEnabled_def Init_enabledLevels resolveLevels_def levelsFromSlice_def)
  have "console DebugLevel (fst (dispatch DebugLevel (fst (Init ?env ?cfg initial_state example_world))
          None (''dbg'' @ [CHR 0x0A] @ ''more'') example_world))
        = ''<7>[DEBUG] dbg'' @ [CHR 0x0A] @ ''<7>more'' @ [CHR 0x0A]"
    using syslog_priority_prefix [OF h, of None "''dbg'' @ [CHR 0x0A] @ ''more''" example_world]
    by (simp add: console_def example_config_def example_world_def Getenv_def plain_prefix_def
          formatWithCaller_def Init_includeCallerTag syslogPrefixForLevel_def)
  then show ?thesis
    using h by (simp add: console_def)
qed

text \<open>
  C1 (amended). Under a configuration without colorization, the console text of a
  call for an enabled severity is the line (level prefix, caller tag, message,
  newline), with the syslog tokens when they apply and without any time stamp,
  whether or not a file is configured. When the file was opened by \<open>Init\<close> and is
  still open, the file receives the same line behind a time stamp of the shape
  \<open>YYYY/MM/DD HH:MM:SS \<close>, twenty bytes long, taken from the clock at the write.
\<close>

theorem plain_console_unstamped_file_stamped:
  assumes "\<not> Colorize cfg"
    and "isLevelEnabled (fst (Init env cfg st0 w0)) l"
    and "valid_clock (now w)"
  shows "console l (fst (dispatch l (fst (Init env cfg st0 w0)) frame msg w)) =
      console l w @
      syslog_copy env l
        (plain_prefix (IncludeLevelPrefix cfg) l @
         formatWithCaller (fst (Init env cfg st0 w0)) frame msg @ [CHR 0x0A])
    \<and> (FilePath cfg \<noteq> [] \<and> open_fails w0 (FilePath cfg) = None \<and>
         fds w (next_fd w0) = Some (FilePath cfg) \<longrightarrow>
         file_text (FilePath cfg) (fst (dispatch l (fst (Init env cfg st0 w0)) frame msg w)) =
           file_text (FilePath cfg) w @ format_stamp (now w) @
           plain_prefix (IncludeLevelPrefix cfg) l @
           formatWithCaller (fst (Init env cfg st0 w0)) frame msg @ [CHR 0x0A])
    \<and> starts_with_stamp
         (format_stamp (now w) @ plain_prefix (IncludeLevelPrefix cfg) l @
          formatWithCaller (fst (Init env cfg st0 w0)) frame msg @ [CHR 0x0A])
    \<and> length (format_stamp (now w)) = 20"
proof -
  let ?st = "fst (Init env cfg st0 w0)"
  let ?line = "plain_prefix (IncludeLevelPrefix cfg) l @ formatWithCaller ?st frame msg @ [CHR 0x0A]"
  have w': "fst (dispatch l ?st frame msg w)
            = Println (Loggers ?st l) (formatWithCaller ?st frame msg) w"
    using assms(2) by (simp add: dispatch_world)
  have a: "console l (fst (dispatch l ?st frame msg w)) = console l w @ syslog_copy env l ?line"
    unfolding w' console_Println_Init using assms(1) by (simp add: console_line_def)
  have b: "file_text (FilePath cfg) (fst (dispatch l ?st frame msg w)) =
           file_text (FilePath cfg) w @ format_stamp (now w) @ ?line"
    if "FilePath cfg \<noteq> []" "open_fails w0 (FilePath cfg) = None"
       "fds w (next_fd w0) = Some (FilePath cfg)"
    unfolding w'
    using file_Println_Init [OF open_log_file_Some [OF that(1,2)] that(3)] assms(1)
    by (simp add: file_line_def)
  show ?thesis
    using a b stamp_shape [OF assms(3)] by blast
qed

theorem plain_console_unstamped_file_stamped_witness:
  "\<not> Colorize plain_file_config
   \<and> isLevelEnabled (fst (Init Map.empty plain_file_config initial_state example_world)) InfoLevel
   \<and> valid_clock (now (snd (Init Map.empty plain_file_config initial_state example_world)))
   \<and> stdout (fst (dispatch InfoLevel
         (fst (Init Map.empty plain_file_config initial_state example_world)) None ''plain info''
         (snd (Init Map.empty plain_file_config initial_state example_world))))
       = ''[INFO] plain info'' @ [CHR 0x0A]
   \<and> file_text ''/tmp/app.log'' (fst (dispatch InfoLevel
         (fst (Init Map.empty plain_file_config initial_state example_world)) None ''plain info''
         (snd (Init Map.empty plain_file_config initial_state example_world))))
       = ''2026/11/01 06:41:05 [INFO] plain info'' @ [CHR 0x0A]"
proof -
  let ?st = "fst (Init Map.empty plain_file_config initial_state example_world)"
  let ?w = "snd (Init Map.empty plain_file_config initial_state example_world)"
  have h1: "\<not> Colorize plain_file_config"
    by (simp add: plain_file_config_def example_config_def)
  have h2: "isLevelEnabled ?st InfoLevel"
    by (simp add: isLevelEnabled_def Init_enabledLevels resolveLevels_def Getenv_def
          lookup_all_enabled plain_file_config_def example_config_def)
  have h3: "valid_clock (now ?w)"
    by (simp add: Init_now example_clock_valid)
  have p: "FilePath plain_file_config = ''/tmp/app.log''"
    "IncludeLevelPrefix plain_file_config" "\<not> IncludeCallerTag plain_file_config"
    by (simp_all add: plain_file_config_def example_config_def)
  have f: "open_fails example_world ''/tmp/app.log'' = None"
    "fds ?w (next_fd example_world) = Some ''/tmp/app.log''"
    "file_text ''/tmp/app.log'' ?w = []" "stdout ?w = []" "now ?w = example_clock"
    by (simp_all add: Init_world p open_log_file_def OpenFile_def example_world_def file_text_def)
  note inst = plain_console_unstamped_file_stamped [OF h1 h2 h3, of None "''plain info''"]
  have "stdout (fst (dispatch InfoLevel ?st None ''plain info'' ?w)) = ''[INFO] plain info'' @ [CHR 0x0A]"
    using inst
    by (simp add: console_def f p syslog_copy_def shouldUseSyslogPrefix_def Getenv_def
          plain_prefix_def formatWithCaller_def Init_includeCallerTag)
  moreover have "file_text ''/tmp/app.log'' (fst (dispatch InfoLevel ?st None ''plain info'' ?w))
       = ''2026/11/01 06:41:05 [INFO] plain info'' @ [CHR 0x0A]"
    using inst
    by (simp add: f p plain_prefix_def formatWithCaller_def Init_includeCallerTag
          format_stamp_example)
  ultimately show ?thesis
    using h1 h2 h3 by simp
qed

text \<open>
  The claim as stated fails under colorization, where the logger is built with the
  date and time flags of the \<open>log\<close> package: the console line itself begins with the
  time stamp, and the file receives the same text.
\<close>

theorem console_timestamp_counterexample:
  "isLevelEnabled (fst (Init Map.empty color_file_config initial_state example_world)) InfoLevel
   \<and> stdout (fst (dispatch InfoLevel
         (fst (Init Map.empty color_file_config initial_state example_world)) None ''hello''
         (snd (Init Map.empty color_file_config initial_state example_world))))
       = ''2026/11/01 06:41:05 hello'' @ [CHR 0x0A]
   \<and> starts_with_stamp (stdout (fst (dispatch InfoLevel
         (fst (Init Map.empty color_file_config initial_state example_world)) None ''hello''
         (snd (Init Map.empty color_file_config initial_state example_world)))))
   \<and> file_text ''/tmp/app.log'' (fst (dispatch InfoLevel
         (fst (Init Map.empty color_file_config initial_state example_world)) None ''hello''
         (snd (Init Map.empty color_file_config initial_state example_world))))
       = ''2026/11/01 06:41:05 hello'' @ [CHR 0x0A]"
  by code_simp

text \<open>
  C2 (amended). With the level-prefix flag set, the console text of a call for an
  enabled severity carries the bracketed level string the logger was built with:
  \<open>DEBUG\<close>, \<open>INFO\<close>, \<open>NOTICE\<close>, \<open>WARNING\<close> (never \<open>WARN\<close>), \<open>ERROR\<close>, \<open>CRIT\<close>,
  \<open>ALERT\<close>, \<open>EMERG\<close>, \<open>FATAL\<close>; it is followed by a space, and under colorization it
  is wrapped in the color and reset sequences. With the flag unset the console text
  has no level token: it is the message line alone, behind the time stamp or the
  syslog tokens where they apply.
\<close>

theorem level_bracket_token:
  assumes "isLevelEnabled (fst (Init env cfg st0 w0)) l"
  shows "console l (fst (dispatch l (fst (Init env cfg st0 w0)) frame msg w)) =
      console l w @
      (if Colorize cfg
       then (if IncludeLevelPrefix cfg
             then colors (level_string l) @ ''['' @ level_string l @ '']'' @ reset @ '' ''
             else []) @
            format_stamp (now w) @
            formatWithCaller (fst (Init env cfg st0 w0)) frame msg @ [CHR 0x0A]
       else syslog_copy env l
              ((if IncludeLevelPrefix cfg then ''['' @ level_string l @ ''] '' else []) @
               formatWithCaller (fst (Init env cfg st0 w0)) frame msg @ [CHR 0x0A]))
    \<and> map level_string AllLevels =
        [''DEBUG'', ''INFO'', ''NOTICE'', ''WARNING'', ''ERROR'', ''CRIT'', ''ALERT'', ''EMERG'',
         ''FATAL'']
    \<and> level_string WarnLevel \<noteq> ''WARN''"
proof -
  let ?st = "fst (Init env cfg st0 w0)"
  have w': "fst (dispatch l ?st frame msg w)
            = Println (Loggers ?st l) (formatWithCaller ?st frame msg) w"
    using assms by (simp add: dispatch_world)
  have "console l (fst (dispatch l ?st frame msg w)) =
          console l w @ console_line env cfg l (now w) (formatWithCaller ?st frame msg)"
    unfolding w' by (rule console_Println_Init)
  then show ?thesis
    by (simp add: console_line_def color_prefix_def plain_prefix_def AllLevels_def)
qed

theorem level_bracket_token_witness:
  "isLevelEnabled (fst (Init Map.empty (example_config\<lparr>IncludeLevelPrefix := True\<rparr>)
                     initial_state example_world)) WarnLevel
   \<and> stderr (fst (dispatch WarnLevel
         (fst (Init Map.empty (example_config\<lparr>IncludeLevelPrefix := True\<rparr>)
                initial_state example_world)) None ''careful'' example_world))
       = ''[WARNING] careful'' @ [CHR 0x0A]"
proof -
  let ?cfg = "example_config\<lparr>IncludeLevelPrefix := True\<rparr>"
  let ?st = "fst (Init Map.empty ?cfg initial_state example_world)"
  have h: "isLevelEnabled ?st WarnLevel"
    by (simp add: isLevelEnabled_def Init_enabledLevels resolveLevels_def Getenv_def
          lookup_all_enabled example_config_def)
  have "console WarnLevel (fst (dispatch WarnLevel ?st None ''careful'' example_world))
        = ''[WARNING] careful'' @ [CHR 0x0A]"
    using level_bracket_token [OF h, of None "''careful''" example_world]
    by (simp add: console_def example_config_def example_world_def syslog_copy_def
          shouldUseSyslogPrefix_def Getenv_def formatWithCaller_def Init_includeCallerTag)
  then show ?thesis
    using h by (simp add: console_def)
qed

text \<open>
  The claim as stated fails for the critical and emergency severities, whose tokens
  are the short forms \<open>[CRIT]\<close> and \<open>[EMERG]\<close>, not the long names.
\<close>

theorem level_bracket_counterexample:
  "isLevelEnabled (fst (Init Map.empty (example_config\<lparr>IncludeLevelPrefix := True\<rparr>)
                     initial_state example_world)) CritLevel
   \<and> stderr (fst (dispatch CritLevel
         (fst (Init Map.empty (example_config\<lparr>IncludeLevelPrefix := True\<rparr>)
                initial_state example_world)) None ''boom'' example_world))
       = ''[CRIT] boom'' @ [CHR 0x0A]
   \<and> stderr (fst (dispatch CritLevel
         (fst (Init Map.empty (example_config\<lparr>IncludeLevelPrefix := True\<rparr>)
                initial_state example_world)) None ''boom'' example_world))
       \<noteq> ''['' @ spec_long_name CritLevel @ ''] boom'' @ [CHR 0x0A]"
  by code_simp

text \<open>
  C6 (amended). With colorization and an open log file, the file receives the console
  text of the call with every escape run removed, a run being the bytes from ESC
  \<open>[\<close> up to and including the next \<open>m\<close>. The console text contains an ESC byte
  exactly when the level-prefix flag is set (the colors wrap the level token only) or
  the message itself contains one; when the message contains none, the file text is
  the plain level prefix, the time stamp and the message, with no ESC byte.
\<close>

theorem colorized_file_copy_stripped:
  assumes "Colorize cfg"
    and "isLevelEnabled (fst (Init env cfg st0 w0)) l"
    and "FilePath cfg \<noteq> []" and "open_fails w0 (FilePath cfg) = None"
    and "fds w (next_fd w0) = Some (FilePath cfg)"
  shows "console l (fst (dispatch l (fst (Init env cfg st0 w0)) frame msg w)) =
      console l w @ color_prefix (IncludeLevelPrefix cfg) l @ format_stamp (now w) @
      formatWithCaller (fst (Init env cfg st0 w0)) frame msg @ [CHR 0x0A]
    \<and> file_text (FilePath cfg) (fst (dispatch l (fst (Init env cfg st0 w0)) frame msg w)) =
      file_text (FilePath cfg) w @
      strip_spec (color_prefix (IncludeLevelPrefix cfg) l @ format_stamp (now w) @
                  formatWithCaller (fst (Init env cfg st0 w0)) frame msg @ [CHR 0x0A])
    \<and> strip_spec (color_prefix (IncludeLevelPrefix cfg) l @ format_stamp (now w) @
                  formatWithCaller (fst (Init env cfg st0 w0)) frame msg @ [CHR 0x0A]) =
      plain_prefix (IncludeLevelPrefix cfg) l @ format_stamp (now w) @
      strip_spec (formatWithCaller (fst (Init env cfg st0 w0)) frame msg @ [CHR 0x0A])
    \<and> (CHR 0x1B \<in> set (color_prefix (IncludeLevelPrefix cfg) l @ format_stamp (now w) @
                  formatWithCaller (fst (Init env cfg st0 w0)) frame msg @ [CHR 0x0A])) =
      (IncludeLevelPrefix cfg \<or>
       CHR 0x1B \<in> set (formatWithCaller (fst (Init env cfg st0 w0)) frame msg))
    \<and> (CHR 0x1B \<notin> set (formatWithCaller (fst (Init env cfg st0 w0)) frame msg) \<longrightarrow>
        strip_spec (color_prefix (IncludeLevelPrefix cfg) l @ format_stamp (now w) @
                  formatWithCaller (fst (Init env cfg st0 w0)) frame msg @ [CHR 0x0A]) =
        plain_prefix (IncludeLevelPrefix cfg) l @ format_stamp (now w) @
        formatWithCaller (fst (Init env cfg st0 w0)) frame msg @ [CHR 0x0A]
        \<and> CHR 0x1B \<notin> set (strip_spec (color_prefix (IncludeLevelPrefix cfg) l @
                  format_stamp (now w) @
                  formatWithCaller (fst (Init env cfg st0 w0)) frame msg @ [CHR 0x0A])))"
proof -
  let ?st = "fst (Init env cfg st0 w0)"
  let ?body = "formatWithCaller ?st frame msg"
  let ?cline = "color_prefix (IncludeLevelPrefix cfg) l @ format_stamp (now w) @ ?body @ [CHR 0x0A]"
  have w': "fst (dispatch l ?st frame msg w) = Println (Loggers ?st l) ?body w"
    using assms(2) by (simp add: dispatch_world)
  have a: "console l (fst (dispatch l ?st frame msg w)) = console l w @ ?cline"
    unfolding w' console_Println_Init using assms(1) by (simp add: console_line_def)
  have b: "file_text (FilePath cfg) (fst (dispatch l ?st frame msg w)) =
           file_text (FilePath cfg) w @ strip_spec ?cline"
    unfolding w'
    using file_Println_Init [OF open_log_file_Some [OF assms(3,4)] assms(5)] assms(1)
    by (simp add: file_line_def strip_loop_spec)
  have c: "strip_spec ?cline =
      plain_prefix (IncludeLevelPrefix cfg) l @ format_stamp (now w) @ strip_spec (?body @ [CHR 0x0A])"
    by (simp only: strip_loop_spec [symmetric] strip_loop_color_prefix
          strip_loop_plain_append [OF format_stamp_no_esc])
  have d: "(CHR 0x1B \<in> set ?cline) = (IncludeLevelPrefix cfg \<or> CHR 0x1B \<in> set ?body)"
    using esc_in_colors [of l] level_string_no_esc [of l] format_stamp_no_esc [of "now w"]
    by (auto simp: color_prefix_def reset_def)
  have e: "strip_spec ?cline =
        plain_prefix (IncludeLevelPrefix cfg) l @ format_stamp (now w) @ ?body @ [CHR 0x0A]
        \<and> CHR 0x1B \<notin> set (strip_spec ?cline)"
    if "CHR 0x1B \<notin> set ?body"
  proof -
    have "CHR 0x1B \<notin> set (?body @ [CHR 0x0A])"
      using that by simp
    then have "strip_spec (?body @ [CHR 0x0A]) = ?body @ [CHR 0x0A]"
      unfolding strip_loop_spec [symmetric] by (rule strip_loop_plain)
    then have s: "strip_spec ?cline =
        plain_prefix (IncludeLevelPrefix cfg) l @ format_stamp (now w) @ ?body @ [CHR 0x0A]"
      using c by simp
    show ?thesis
      unfolding s using that level_string_no_esc [of l] format_stamp_no_esc [of "now w"]
      by (auto simp: plain_prefix_def)
  qed
  show ?thesis
    using a b c d e by blast
qed

theorem colorized_file_copy_stripped_witness:
  "Colorize (color_file_config\<lparr>IncludeLevelPrefix := True\<rparr>)
   \<and> isLevelEnabled (fst (Init Map.empty (color_file_config\<lparr>IncludeLevelPrefix := True\<rparr>)
                           initial_state example_world)) InfoLevel
   \<and> FilePath (color_file_config\<lparr>IncludeLevelPrefix := True\<rparr>) \<noteq> []
   \<and> open_fails example_world (FilePath (color_file_config\<lparr>IncludeLevelPrefix := True\<rparr>)) = None
   \<and> fds (snd (Init Map.empty (color_file_config\<lparr>IncludeLevelPrefix := True\<rparr>)
                 initial_state example_world)) (next_fd example_world)
       = Some (FilePath (color_file_config\<lparr>IncludeLevelPrefix := True\<rparr>))
   \<and> stdout (fst (dispatch InfoLevel
         (fst (Init Map.empty (color_file_config\<lparr>IncludeLevelPrefix := True\<rparr>)
                initial_state example_world)) None ''test info message''
         (snd (Init Map.empty (color_file_config\<lparr>IncludeLevelPrefix := True\<rparr>)
                initial_state example_world))))
       = [CHR 0x1B] @ ''[32m[INFO]'' @ [CHR 0x1B] @ ''[0m 2026/11/01 06:41:05 test info message''
         @ [CHR 0x0A]
   \<and> file_text ''/tmp/app.log'' (fst (dispatch InfoLevel
         (fst (Init Map.empty (color_file_config\<lparr>IncludeLevelPrefix := True\<rparr>)
                initial_state example_world)) None ''test info message''
         (snd (Init Map.empty (color_file_config\<lparr>IncludeLevelPrefix := True\<rparr>)
                initial_state example_world))))
       = ''[INFO] 2026/11/01 06:41:05 test info message'' @ [CHR 0x0A]"
proof -
  let ?cfg = "color_file_config\<lparr>IncludeLevelPrefix := True\<rparr>"
  let ?st = "fst (Init Map.empty ?cfg initial_state example_world)"
  let ?w = "snd (Init Map.empty ?cfg initial_state example_world)"
  have p: "FilePath ?cfg = ''/tmp/app.log''" "IncludeLevelPrefix ?cfg" "\<not> IncludeCallerTag ?cfg"
    "Colorize ?cfg"
    by (simp_all add: color_file_config_def example_config_def)
  have h2: "isLevelEnabled ?st InfoLevel"
    by (simp add: isLevelEnabled_def Init_enabledLevels resolveLevels_def Getenv_def
          lookup_all_enabled color_file_config_def example_config_def)
  have h3: "FilePath ?cfg \<noteq> []"
    by (simp add: p)
  have h4: "open_fails example_world (FilePath ?cfg) = None"
    by (simp add: p example_world_def)
  have f: "fds ?w (next_fd example_world) = Some ''/tmp/app.log''"
    "file_text ''/tmp/app.log'' ?w = []" "stdout ?w = []" "now ?w = example_clock"
    by (simp_all add: Init_world p open_log_file_def OpenFile_def example_world_def file_text_def)
  have h5: "fds ?w (next_fd example_world) = Some (FilePath ?cfg)"
    by (simp add: f p)
  note inst = colorized_file_copy_stripped [OF p(4) h2 h3 h4 h5, of None "''test info message''"]
  have "stdout (fst (dispatch InfoLevel ?st None ''test info message'' ?w))
       = [CHR 0x1B] @ ''[32m[INFO]'' @ [CHR 0x1B] @ ''[0m 2026/11/01 06:41:05 test info message''
         @ [CHR 0x0A]"
    using inst
    by (simp add: console_def f p color_prefix_def colors_def reset_def formatWithCaller_def
          Init_includeCallerTag format_stamp_example)
  moreover have "file_text ''/tmp/app.log'' (fst (dispatch InfoLevel ?st None ''test info message'' ?w))
       = ''[INFO] 2026/11/01 06:41:05 test info message'' @ [CHR 0x0A]"
    using inst
    by (simp add: f p plain_prefix_def formatWithCaller_def Init_includeCallerTag
          format_stamp_example)
  ultimately show ?thesis
    using p(4) h2 h3 h4 h5 by simp
qed

text \<open>
  The claim as stated fails when the level-prefix flag is unset: the colorized
  console text then contains no escape sequence at all.
\<close>

theorem colorized_console_counterexample:
  "isLevelEnabled (fst (Init Map.empty color_file_config initial_state example_world)) WarnLevel
   \<and> stderr (fst (dispatch WarnLevel
         (fst (Init Map.empty color_file_config initial_state example_world)) None ''careful''
         (snd (Init Map.empty color_file_config initial_state example_world))))
       = ''2026/11/01 06:41:05 careful'' @ [CHR 0x0A]
   \<and> CHR 0x1B \<notin> set (stderr (fst (dispatch WarnLevel
         (fst (Init Map.empty color_file_config initial_state example_world)) None ''careful''
         (snd (Init Map.empty color_file_config initial_state example_world)))))"
  by code_simp

end
